theory Spec2Isabelle
  imports Complex_Main "HOL-Library.Sublist" "HOL-Library.AList" "HOL-Library.Multiset"
begin

section \<open>Python values shared by the handlers\<close>

text \<open>
  The backend is a set of FastAPI handlers over AiiDA. A handler either returns a
  response or raises. A raise is the left summand of the result: \<open>HTTPException s d\<close>
  is FastAPI's HTTPException with status code \<open>s\<close> and detail \<open>d\<close>; every other
  constructor is a Python exception that leaves the handler uncaught.
  \<open>RequestValidationError\<close> is what FastAPI raises when a declared parameter
  constraint fails. \<open>OtherError m\<close> stands for any exception class that the handlers
  never name (what AiiDA raises for a missing node, for instance).
\<close>

datatype exc =
    KeyError string
  | TypeError
  | AttributeError
  | ValueError
  | OverflowError
  | UnboundLocalError
  | JSONDecodeError
  | RecursionError
  | HTTPException nat string
  | RequestValidationError
  | OtherError string

text \<open>Python's \<open>str\<close> of an \<open>int\<close>, used by the f-strings that print a node id.\<close>

definition digit_char :: "nat \<Rightarrow> char" where
  "digit_char d = char_of (48 + d)"

function str_nat :: "nat \<Rightarrow> string" where
  "str_nat n = (if n < 10 then [digit_char n] else str_nat (n div 10) @ [digit_char (n mod 10)])"
  by pat_completeness auto
termination
  by (relation "measure (\<lambda>n. n)") auto

declare str_nat.simps [simp del]

definition str_int :: "int \<Rightarrow> string" where
  "str_int i = (if i < 0 then CHR ''-'' # str_nat (nat (- i)) else str_nat (nat i))"

text \<open>
  Raising inside a sequence of statements: the first exception ends the sequence.
\<close>

definition bind_exc :: "exc + 'a \<Rightarrow> ('a \<Rightarrow> exc + 'b) \<Rightarrow> exc + 'b" where
  "bind_exc m f = (case m of Inl e \<Rightarrow> Inl e | Inr v \<Rightarrow> f v)"

text \<open>
  The dynamically typed values the handlers work on: what \<open>json.loads\<close> returns, and
  the nested dictionaries AiiDA keeps for a workgraph. A dictionary is an association
  list read with \<open>map_of\<close> and written with \<open>AList.update\<close>; all its keys are strings.
  A float is one of the rationals, an infinity or a NaN.
\<close>

datatype pyfloat = Finite rat | PosInf | NegInf | NaN

datatype pyval =
    PNone
  | PBool bool
  | PInt int
  | PFloat pyfloat
  | PStr string
  | PList "pyval list"
  | PDict "(string \<times> pyval) list"

text \<open>Truth value testing (\<open>if value:\<close>, \<open>not value\<close>).\<close>

fun truthy :: "pyval \<Rightarrow> bool" where
  "truthy PNone = False"
| "truthy (PBool b) = b"
| "truthy (PInt i) = (i \<noteq> 0)"
| "truthy (PFloat f) = (f \<noteq> Finite 0)"
| "truthy (PStr s) = (s \<noteq> [])"
| "truthy (PList xs) = (xs \<noteq> [])"
| "truthy (PDict kvs) = (kvs \<noteq> [])"

text \<open>
  \<open>d[k]\<close> with a string key: KeyError on a dictionary without the key, TypeError on
  anything that is not a dictionary (None is not subscriptable; a list or a string
  takes no string index).
\<close>

fun getitem :: "pyval \<Rightarrow> string \<Rightarrow> exc + pyval" where
  "getitem (PDict kvs) k = (case map_of kvs k of None \<Rightarrow> Inl (KeyError k) | Some v \<Rightarrow> Inr v)"
| "getitem _ k = Inl TypeError"

text \<open>\<open>d[k] = v\<close> with a string key.\<close>

fun setitem :: "pyval \<Rightarrow> string \<Rightarrow> pyval \<Rightarrow> exc + pyval" where
  "setitem (PDict kvs) k v = Inr (PDict (AList.update k v kvs))"
| "setitem _ k v = Inl TypeError"

text \<open>\<open>d.get(k, default)\<close>: only a dictionary has the method.\<close>

fun dict_get :: "pyval \<Rightarrow> string \<Rightarrow> pyval \<Rightarrow> exc + pyval" where
  "dict_get (PDict kvs) k dflt = Inr (case map_of kvs k of None \<Rightarrow> dflt | Some v \<Rightarrow> v)"
| "dict_get _ k dflt = Inl AttributeError"

text \<open>
  What a \<open>for\<close> loop iterates over: the elements of a list, the keys of a dictionary,
  the characters of a string; anything else is not iterable.
\<close>

fun py_iter :: "pyval \<Rightarrow> exc + pyval list" where
  "py_iter (PList xs) = Inr xs"
| "py_iter (PDict kvs) = Inr (map (\<lambda>kv. PStr (fst kv)) kvs)"
| "py_iter (PStr s) = Inr (map (\<lambda>c. PStr [c]) s)"
| "py_iter _ = Inl TypeError"

text \<open>
  The built-ins whose result depends on Python's text handling are parameters:
  \<open>json_loads\<close> (\<open>json.loads\<close>: the value it returns, or the exception it raises,
  which is JSONDecodeError for a text that is not JSON and can be another one, such as
  RecursionError for a text nested too deeply), \<open>str_of\<close> (\<open>str\<close> of a value that is
  not a string), \<open>int_of_str\<close> (\<open>int\<close> of a string, None for a ValueError),
  \<open>isdigit\<close> and \<open>title\<close> (the string methods).
\<close>

record python =
  json_loads :: "string \<Rightarrow> exc + pyval"
  str_of :: "pyval \<Rightarrow> string"
  int_of_str :: "string \<Rightarrow> int option"
  isdigit :: "string \<Rightarrow> bool"
  title :: "string \<Rightarrow> string"

text \<open>\<open>f"{value}"\<close>: a string is inserted as it is.\<close>

definition format_value :: "python \<Rightarrow> pyval \<Rightarrow> string" where
  "format_value py v = (case v of PStr s \<Rightarrow> s | _ \<Rightarrow> str_of py v)"

text \<open>
  \<open>int(value)\<close>: a string is parsed (ValueError), a float is truncated towards zero
  (OverflowError for an infinity, ValueError for a NaN), and None, a list or a
  dictionary is a TypeError.
\<close>

fun py_int :: "python \<Rightarrow> pyval \<Rightarrow> exc + int" where
  "py_int py (PInt i) = Inr i"
| "py_int py (PBool b) = Inr (if b then 1 else 0)"
| "py_int py (PStr s) = (case int_of_str py s of None \<Rightarrow> Inl ValueError | Some i \<Rightarrow> Inr i)"
| "py_int py (PFloat (Finite q)) = Inr (if 0 \<le> q then \<lfloor>q\<rfloor> else \<lceil>q\<rceil>)"
| "py_int py (PFloat NaN) = Inl ValueError"
| "py_int py (PFloat _) = Inl OverflowError"
| "py_int py _ = Inl TypeError"

text \<open>
  \<open>key in d\<close> for a dictionary with string keys hashes the key first: a list or a
  dictionary is unhashable. The result is the value stored under the key, if any.
\<close>

fun lookup_hashed :: "(string \<times> 'v) list \<Rightarrow> pyval \<Rightarrow> exc + 'v option" where
  "lookup_hashed d (PStr s) = Inr (map_of d s)"
| "lookup_hashed d (PList xs) = Inl TypeError"
| "lookup_hashed d (PDict kvs) = Inl TypeError"
| "lookup_hashed d _ = Inr None"

text \<open>\<open>x in (s1, s2, ...)\<close> for a tuple of strings compares with \<open>==\<close>.\<close>

fun in_strings :: "pyval \<Rightarrow> string list \<Rightarrow> bool" where
  "in_strings (PStr s) ss = (s \<in> set ss)"
| "in_strings _ ss = False"

text \<open>\<open>path.split("/")\<close>: always at least one segment.\<close>

fun split_slash :: "string \<Rightarrow> string list" where
  "split_slash [] = [[]]"
| "split_slash (c # cs) =
     (if c = CHR ''/'' then [] # split_slash cs
      else (case split_slash cs of seg # segs \<Rightarrow> (c # seg) # segs | [] \<Rightarrow> [[c]]))"

text \<open>\<open>s.upper()\<close> on the ASCII letters, which is all the comparisons below depend on.\<close>

definition upper_char :: "char \<Rightarrow> char" where
  "upper_char c =
     (case map_of (zip ''abcdefghijklmnopqrstuvwxyz'' ''ABCDEFGHIJKLMNOPQRSTUVWXYZ'') c of
        Some u \<Rightarrow> u
      | None \<Rightarrow> c)"

definition upper :: "string \<Rightarrow> string" where
  "upper s = map upper_char s"

section \<open>api.py: the application-level exception handler\<close>

text \<open>
  \<open>_spa_server\<close> is registered for StarletteHTTPException, the base class of FastAPI's
  HTTPException. A response is either a file sent with a media type, or whatever the
  framework's default \<open>http_exception_handler\<close> builds from the exception.
\<close>

datatype 'r response =
    FileResponse string string
  | DefaultResponse 'r

definition spa_server :: "string \<Rightarrow> (nat \<Rightarrow> string \<Rightarrow> 'r) \<Rightarrow> nat \<Rightarrow> string \<Rightarrow> 'r response" where
  "spa_server build_dir http_exception_handler status_code detail =
     (if status_code = 404 then FileResponse (build_dir @ ''/index.html'') ''text/html''
      else DefaultResponse (http_exception_handler status_code detail))"

text \<open>
  What the application answers when a handler has finished: the handler's value, the
  exception handler's response for an HTTPException, and the server's own
  500 for any other exception.
\<close>

datatype ('a, 'r) outcome =
    Returned 'a
  | Handled "'r response"
  | ServerError exc

definition app_outcome ::
  "string \<Rightarrow> (nat \<Rightarrow> string \<Rightarrow> 'r) \<Rightarrow> exc + 'a \<Rightarrow> ('a, 'r) outcome" where
  "app_outcome build_dir http_exception_handler res =
     (case res of
        Inr v \<Rightarrow> Returned v
      | Inl (HTTPException s d) \<Rightarrow> Handled (spa_server build_dir http_exception_handler s d)
      | Inl e \<Rightarrow> ServerError e)"

section \<open>The query parameters of the two list endpoints\<close>

text \<open>
  Both list handlers declare \<open>skip: int = Query(0, ge=0)\<close>,
  \<open>limit: int = Query(15, gt=0, le=500)\<close>, \<open>sortField: str = Query("pk", pattern=...)\<close>
  and \<open>sortOrder: str = Query("desc", pattern="^(asc|desc)$")\<close>. FastAPI checks
  the declared constraints of the parameters a request carries and calls the handler only
  when all hold; a parameter the request omits takes its default. A pattern
  \<open>^(a|b|...)$\<close> is given by the list of its alternatives: pydantic matches it with
  \<open>^\<close> and \<open>$\<close> at the two ends of the text.
\<close>

definition Query_int ::
  "int \<Rightarrow> int option \<Rightarrow> int option \<Rightarrow> int option \<Rightarrow> int option \<Rightarrow> exc + int" where
  "Query_int dflt ge gt le raw =
     (case raw of
        None \<Rightarrow> Inr dflt
      | Some v \<Rightarrow>
          if (case ge of Some b \<Rightarrow> v < b | None \<Rightarrow> False)
             \<or> (case gt of Some b \<Rightarrow> v \<le> b | None \<Rightarrow> False)
             \<or> (case le of Some b \<Rightarrow> b < v | None \<Rightarrow> False)
          then Inl RequestValidationError else Inr v)"

definition Query_str :: "string \<Rightarrow> string list \<Rightarrow> string option \<Rightarrow> exc + string" where
  "Query_str dflt alternatives raw =
     (case raw of
        None \<Rightarrow> Inr dflt
      | Some v \<Rightarrow> if v \<in> set alternatives then Inr v else Inl RequestValidationError)"

record raw_query =
  raw_skip :: "int option"
  raw_limit :: "int option"
  raw_sortField :: "string option"
  raw_sortOrder :: "string option"
  raw_filterModel :: "string option"

record list_query =
  skip :: int
  limit :: int
  sortField :: string
  sortOrder :: string
  filterModel :: "string option"

definition datanode_sort_pattern :: "string list" where
  "datanode_sort_pattern = [''pk'', ''ctime'', ''node_type'', ''label'', ''description'']"

definition workgraph_sort_pattern :: "string list" where
  "workgraph_sort_pattern =
     [''pk'', ''ctime'', ''process_label'', ''state'', ''label'', ''description'']"

definition list_parameters :: "string list \<Rightarrow> raw_query \<Rightarrow> exc + list_query" where
  "list_parameters sort_pattern raw =
     bind_exc (Query_int 0 (Some 0) None None (raw_skip raw)) (\<lambda>sk.
     bind_exc (Query_int 15 None (Some 0) (Some 500) (raw_limit raw)) (\<lambda>li.
     bind_exc (Query_str ''pk'' sort_pattern (raw_sortField raw)) (\<lambda>sf.
     bind_exc (Query_str ''desc'' [''asc'', ''desc''] (raw_sortOrder raw)) (\<lambda>so.
       Inr \<lparr>skip = sk, limit = li, sortField = sf, sortOrder = so,
            filterModel = raw_filterModel raw\<rparr>))))"

section \<open>AiiDA's QueryBuilder\<close>

text \<open>
  The handlers use the QueryBuilder through \<open>append\<close>, \<open>order_by\<close>, \<open>offset\<close>,
  \<open>limit\<close>, \<open>count\<close> and \<open>all\<close>. A builder is the query described so far. The
  database holds the projected rows of the node class the handler appends; which rows a
  filter dictionary matches (\<open>matches\<close>) and how rows are ordered by a column in a
  direction (\<open>order_rows\<close>) belong to AiiDA and are parameters. \<open>count\<close> counts the
  rows the query as built so far would return, so an offset or a limit already set
  would be counted in.

  \<open>count\<close> and \<open>all\<close> build the query and run it, and both can raise. AiiDA
  refuses to build a query that orders by a key inside the JSON column \<open>attributes\<close>
  (a column with a path, such as \<open>attributes.process_state\<close>) when the order
  specification names no cast, and the handlers never name one: ValueError. The database
  takes 64-bit integers: an integer in the filters or an offset outside that range is an
  OverflowError when the query runs.
\<close>

record query_builder =
  qb_filters :: pyval
  qb_order :: "(string \<times> string) option"
  qb_offset :: "int option"
  qb_limit :: "int option"

record 'row database =
  rows :: "'row list"
  matches :: "pyval \<Rightarrow> 'row \<Rightarrow> bool"
  order_rows :: "string \<Rightarrow> string \<Rightarrow> 'row list \<Rightarrow> 'row list"

definition QueryBuilder :: query_builder where
  "QueryBuilder = \<lparr>qb_filters = PDict [], qb_order = None, qb_offset = None, qb_limit = None\<rparr>"

definition qb_append :: "pyval \<Rightarrow> query_builder \<Rightarrow> query_builder" where
  "qb_append filters qb = qb\<lparr>qb_filters := filters\<rparr>"

definition qb_order_by :: "string \<Rightarrow> string \<Rightarrow> query_builder \<Rightarrow> query_builder" where
  "qb_order_by col dir qb = qb\<lparr>qb_order := Some (col, dir)\<rparr>"

definition qb_set_offset :: "int \<Rightarrow> query_builder \<Rightarrow> query_builder" where
  "qb_set_offset k qb = qb\<lparr>qb_offset := Some k\<rparr>"

definition qb_set_limit :: "int \<Rightarrow> query_builder \<Rightarrow> query_builder" where
  "qb_set_limit k qb = qb\<lparr>qb_limit := Some k\<rparr>"

definition int64 :: "int \<Rightarrow> bool" where
  "int64 i \<longleftrightarrow> - (2 ^ 63) \<le> i \<and> i < 2 ^ 63"

fun big_int_in :: "pyval \<Rightarrow> bool" where
  "big_int_in (PInt i) = (\<not> int64 i)"
| "big_int_in (PList xs) = (\<exists>x \<in> set xs. big_int_in x)"
| "big_int_in (PDict kvs) = (\<exists>kv \<in> set kvs. big_int_in (snd kv))"
| "big_int_in _ = False"

definition attribute_path :: "string \<Rightarrow> bool" where
  "attribute_path col \<longleftrightarrow> CHR ''.'' \<in> set col"

definition qb_run :: "'row database \<Rightarrow> query_builder \<Rightarrow> exc + 'row list" where
  "qb_run db qb =
     (if (case qb_order qb of None \<Rightarrow> False | Some (col, dir) \<Rightarrow> attribute_path col)
      then Inl ValueError
      else if big_int_in (qb_filters qb)
              \<or> (case qb_offset qb of None \<Rightarrow> False | Some k \<Rightarrow> \<not> int64 k)
      then Inl OverflowError
      else
        (let matching = filter (matches db (qb_filters qb)) (rows db);
             ordered = (case qb_order qb of None \<Rightarrow> matching
                        | Some (col, dir) \<Rightarrow> order_rows db col dir matching);
             skipped = (case qb_offset qb of None \<Rightarrow> ordered
                        | Some k \<Rightarrow> drop (nat k) ordered)
         in Inr (case qb_limit qb of None \<Rightarrow> skipped | Some k \<Rightarrow> take (nat k) skipped)))"

definition qb_all :: "'row database \<Rightarrow> query_builder \<Rightarrow> exc + 'row list" where
  "qb_all db qb = qb_run db qb"

definition qb_count :: "'row database \<Rightarrow> query_builder \<Rightarrow> exc + int" where
  "qb_count db qb = bind_exc (qb_run db qb) (\<lambda>found. Inr (int (length found)))"

section \<open>datanode.py: the list of data nodes\<close>

text \<open>
  One item of the DataGrid filter model. The three \<open>item.get\<close> come first; an item
  with a falsy value is skipped before its field is looked at.
\<close>

definition field_map :: "(string \<times> string) list" where
  "field_map = [(''pk'', ''id''), (''ctime'', ''ctime''), (''node_type'', ''node_type''),
                (''label'', ''label''), (''description'', ''description'')]"

definition like_filter :: "python \<Rightarrow> pyval \<Rightarrow> pyval" where
  "like_filter py v = PDict [(''like'', PStr (''%'' @ format_value py v @ ''%''))]"

definition translate_item ::
  "python \<Rightarrow> pyval \<Rightarrow> (string \<times> pyval) list \<Rightarrow> exc + (string \<times> pyval) list" where
  "translate_item py item filters =
     bind_exc (dict_get item ''field'' PNone) (\<lambda>field.
     bind_exc (dict_get item ''value'' PNone) (\<lambda>v.
     bind_exc (dict_get item ''operator'' (PStr ''contains'')) (\<lambda>operator.
       if \<not> truthy v then Inr filters
       else
         bind_exc (lookup_hashed field_map field) (\<lambda>found.
           case found of
             None \<Rightarrow> Inr filters
           | Some col \<Rightarrow>
               if col = ''id'' then
                 (case py_int py v of
                    Inr i \<Rightarrow> Inr (AList.update col (PInt i) filters)
                  | Inl ValueError \<Rightarrow> Inr filters
                  | Inl e \<Rightarrow> Inl e)
               else if in_strings operator [''contains'', ''equals'', ''is''] then
                 Inr (AList.update col (like_filter py v) filters)
               else Inr filters))))"

fun translate_items ::
  "python \<Rightarrow> pyval list \<Rightarrow> (string \<times> pyval) list \<Rightarrow> exc + (string \<times> pyval) list" where
  "translate_items py [] filters = Inr filters"
| "translate_items py (item # items) filters =
     bind_exc (translate_item py item filters) (translate_items py items)"

text \<open>The block one quick-filter value contributes.\<close>

definition or_block :: "python \<Rightarrow> pyval \<Rightarrow> exc + pyval" where
  "or_block py v =
     (let like = like_filter py v in
      bind_exc
        (case v of
           PStr s \<Rightarrow>
             if isdigit py s then
               (case int_of_str py s of
                  None \<Rightarrow> Inl ValueError
                | Some i \<Rightarrow> Inr (PDict [(''id'', PInt i)]))
             else Inr (PDict [])
         | _ \<Rightarrow> Inl AttributeError)
        (\<lambda>first.
           Inr (PDict [(''or'', PList [first, PDict [(''node_type'', like)],
                  PDict [(''label'', like)], PDict [(''description'', like)]])])))"

fun or_blocks :: "python \<Rightarrow> pyval list \<Rightarrow> exc + pyval list" where
  "or_blocks py [] = Inr []"
| "or_blocks py (v # vs) =
     bind_exc (or_block py v) (\<lambda>b. bind_exc (or_blocks py vs) (\<lambda>bs. Inr (b # bs)))"

text \<open>The filters of the query, from the query parameter \<open>filterModel\<close>.\<close>

definition datanode_filters :: "python \<Rightarrow> string option \<Rightarrow> exc + pyval" where
  "datanode_filters py fmodel =
     (case fmodel of
        None \<Rightarrow> Inr (PDict [])
      | Some text \<Rightarrow>
          if text = [] then Inr (PDict [])
          else
            (case json_loads py text of
               Inl JSONDecodeError \<Rightarrow> Inl (HTTPException 400 ''Invalid filterModel JSON'')
             | Inl e \<Rightarrow> Inl e
             | Inr fm \<Rightarrow>
                 bind_exc (dict_get fm ''items'' (PList [])) (\<lambda>items.
                 bind_exc (py_iter items) (\<lambda>items.
                 bind_exc (translate_items py items []) (\<lambda>filters.
                 bind_exc (dict_get fm ''quickFilterValues'' (PList [])) (\<lambda>qf_values.
                   if truthy qf_values then
                     bind_exc (py_iter qf_values) (\<lambda>vs.
                     bind_exc (or_blocks py vs) (\<lambda>or_blocks_per_value.
                       if filters \<noteq> [] then
                         Inr (PDict [(''and'', PList (PDict filters # or_blocks_per_value))])
                       else Inr (PDict [(''and'', PList or_blocks_per_value)])))
                   else Inr (PDict filters)))))))"

record 'time datanode_row =
  d_id :: int
  d_uuid :: string
  d_ctime :: 'time
  d_node_type :: string
  d_label :: string
  d_description :: string

type_synonym json_object = "(string \<times> pyval) list"

record 'item page =
  total :: int
  data :: "'item list"

definition datanode_col_map :: "(string \<times> string) list" where
  "datanode_col_map = [(''pk'', ''id''), (''ctime'', ''ctime''), (''node_type'', ''node_type''),
                       (''label'', ''label''), (''description'', ''description'')]"

definition datanode_item :: "('time \<Rightarrow> string) \<Rightarrow> 'time datanode_row \<Rightarrow> json_object" where
  "datanode_item time_ago r =
     [(''pk'', PInt (d_id r)), (''uuid'', PStr (d_uuid r)), (''ctime'', PStr (time_ago (d_ctime r))),
      (''node_type'', PStr (d_node_type r)), (''label'', PStr (d_label r)),
      (''description'', PStr (d_description r))]"

text \<open>
  The handler body. \<open>time_ago\<close> is the repository's own helper of \<open>utils\<close>, taken as
  a parameter.
\<close>

definition read_datanode_data ::
  "python \<Rightarrow> ('time \<Rightarrow> string) \<Rightarrow> 'time datanode_row database \<Rightarrow> list_query
     \<Rightarrow> exc + json_object page" where
  "read_datanode_data py time_ago db q =
     bind_exc (datanode_filters py (filterModel q)) (\<lambda>filters.
       let qb = qb_append filters QueryBuilder in
       (case map_of datanode_col_map (sortField q) of
          None \<Rightarrow> Inl (KeyError (sortField q))
        | Some col \<Rightarrow>
            (let qb1 = qb_order_by col (sortOrder q) qb in
             bind_exc (qb_count db qb1) (\<lambda>total_rows.
               let qb2 = qb_set_limit (limit q) (qb_set_offset (skip q) qb1) in
               bind_exc (qb_all db qb2) (\<lambda>found.
                 Inr \<lparr>total = total_rows, data = map (datanode_item time_ago) found\<rparr>)))))"

text \<open>The endpoint: the declared parameters are checked, then the handler runs.\<close>

definition get_datanode_data ::
  "python \<Rightarrow> ('time \<Rightarrow> string) \<Rightarrow> 'time datanode_row database \<Rightarrow> raw_query
     \<Rightarrow> exc + json_object page" where
  "get_datanode_data py time_ago db raw =
     bind_exc (list_parameters datanode_sort_pattern raw) (read_datanode_data py time_ago db)"

section \<open>workgraph.py: the list of workgraphs\<close>

text \<open>
  A projected row of a WorkGraphNode. The process state is a string or None; the other
  attributes are passed on as they are.
\<close>

record 'time workgraph_row =
  w_id :: int
  w_uuid :: string
  w_ctime :: 'time
  w_process_label :: pyval
  w_process_state :: "string option"
  w_process_status :: pyval
  w_exit_status :: pyval
  w_exit_message :: pyval
  w_label :: string
  w_description :: string

definition workgraph_col_map :: "(string \<times> string) list" where
  "workgraph_col_map =
     [(''pk'', ''id''), (''ctime'', ''ctime''), (''process_label'', ''attributes.process_label''),
      (''state'', ''attributes.process_state''), (''status'', ''attributes.process_status''),
      (''exit_status'', ''attributes.exit_status''),
      (''exit_message'', ''attributes.exit_message''),
      (''label'', ''label''), (''description'', ''description'')]"

text \<open>\<open>state.title()\<close> is an AttributeError when the state is None.\<close>

definition workgraph_item ::
  "python \<Rightarrow> ('time \<Rightarrow> string) \<Rightarrow> 'time workgraph_row \<Rightarrow> exc + json_object" where
  "workgraph_item py time_ago r =
     (case w_process_state r of
        None \<Rightarrow> Inl AttributeError
      | Some state \<Rightarrow>
          Inr [(''pk'', PInt (w_id r)), (''uuid'', PStr (w_uuid r)),
               (''ctime'', PStr (time_ago (w_ctime r))),
               (''process_label'', w_process_label r), (''state'', PStr (title py state)),
               (''status'', w_process_status r), (''exit_status'', w_exit_status r),
               (''exit_message'', w_exit_message r), (''label'', PStr (w_label r)),
               (''description'', PStr (w_description r))])"

fun workgraph_items ::
  "python \<Rightarrow> ('time \<Rightarrow> string) \<Rightarrow> 'time workgraph_row list \<Rightarrow> exc + json_object list" where
  "workgraph_items py time_ago [] = Inr []"
| "workgraph_items py time_ago (r # rs) =
     bind_exc (workgraph_item py time_ago r) (\<lambda>item.
     bind_exc (workgraph_items py time_ago rs) (\<lambda>items. Inr (item # items)))"

text \<open>
  The handler body. \<open>translate_datagrid_filter_json\<close> and \<open>time_ago\<close> are the
  repository's own helpers of \<open>utils\<close>, taken as parameters; the translation may raise.
\<close>

definition workgraph_filters :: "(string \<Rightarrow> exc + pyval) \<Rightarrow> string option \<Rightarrow> exc + pyval" where
  "workgraph_filters translate_datagrid_filter_json fmodel =
     (case fmodel of
        None \<Rightarrow> Inr (PDict [])
      | Some text \<Rightarrow>
          if text = [] then Inr (PDict []) else translate_datagrid_filter_json text)"

definition read_workgraph_data ::
  "python \<Rightarrow> (string \<Rightarrow> exc + pyval) \<Rightarrow> ('time \<Rightarrow> string) \<Rightarrow> 'time workgraph_row database
     \<Rightarrow> list_query \<Rightarrow> exc + json_object page" where
  "read_workgraph_data py translate_datagrid_filter_json time_ago db q =
     bind_exc (workgraph_filters translate_datagrid_filter_json (filterModel q))
       (\<lambda>filters.
          let qb = qb_append filters QueryBuilder in
          (case map_of workgraph_col_map (sortField q) of
             None \<Rightarrow> Inl (KeyError (sortField q))
           | Some col \<Rightarrow>
               (let qb1 = qb_order_by col (sortOrder q) qb in
                bind_exc (qb_count db qb1) (\<lambda>total_rows.
                  let qb2 = qb_set_limit (limit q) (qb_set_offset (skip q) qb1) in
                  bind_exc (qb_all db qb2) (\<lambda>found.
                  bind_exc (workgraph_items py time_ago found) (\<lambda>page.
                    Inr \<lparr>total = total_rows, data = page\<rparr>))))))"

definition get_workgraph_data ::
  "python \<Rightarrow> (string \<Rightarrow> exc + pyval) \<Rightarrow> ('time \<Rightarrow> string) \<Rightarrow> 'time workgraph_row database
     \<Rightarrow> raw_query \<Rightarrow> exc + json_object page" where
  "get_workgraph_data py translate_datagrid_filter_json time_ago db raw =
     bind_exc (list_parameters workgraph_sort_pattern raw)
       (read_workgraph_data py translate_datagrid_filter_json time_ago db)"

section \<open>workgraph.py: one workgraph and its sub-workgraphs\<close>

text \<open>
  The handlers read a loaded node through its properties \<open>workgraph_data\<close>,
  \<open>task_executors\<close>, \<open>task_map_info\<close>, \<open>process_label\<close> and
  \<open>workgraph_data_short\<close>, and call \<open>deserialize_unsafe\<close>,
  \<open>workgraph_to_short_json\<close>, \<open>get_parent_workgraphs\<close> (AiiDA and aiida_workgraph) and
  \<open>get_node_summary\<close>, \<open>get_node_inputs\<close>, \<open>get_node_outputs\<close> (the repository's
  \<open>utils\<close>); all of them are parameters. The entry of \<open>task_map_info\<close> for a map task
  has a fixed shape and is a record.
\<close>

record map_link =
  from_node :: string
  to_node :: string
  from_socket :: pyval
  to_socket :: pyval

record map_info =
  children :: "string list"
  mi_prefix :: "string list"
  links :: "map_link list"

text \<open>\<open>ndata["metadata"]["node_type"].upper()\<close>\<close>

definition node_type_upper :: "pyval \<Rightarrow> exc + string" where
  "node_type_upper ndata =
     bind_exc (getitem ndata ''metadata'') (\<lambda>metadata.
     bind_exc (getitem metadata ''node_type'') (\<lambda>node_type.
       case node_type of PStr s \<Rightarrow> Inr (upper s) | _ \<Rightarrow> Inl AttributeError))"

text \<open>
  The loop of the WORKGRAPH branch:
  \<open>for segment in segments[1:]: graph_data = graph_data["tasks"][segment]["executor"]["graph_data"]\<close>
\<close>

fun descend :: "pyval \<Rightarrow> string list \<Rightarrow> exc + pyval" where
  "descend graph_data [] = Inr graph_data"
| "descend graph_data (segment # segments) =
     bind_exc (getitem graph_data ''tasks'') (\<lambda>tasks.
     bind_exc (getitem tasks segment) (\<lambda>task.
     bind_exc (getitem task ''executor'') (\<lambda>executor.
     bind_exc (getitem executor ''graph_data'') (\<lambda>inner. descend inner segments))))"

definition workgraph_branch :: "pyval \<Rightarrow> string \<Rightarrow> string list \<Rightarrow> exc + pyval" where
  "workgraph_branch executors segment0 segments =
     bind_exc (dict_get executors segment0 PNone) (\<lambda>executor.
     bind_exc (getitem executor ''graph_data'') (\<lambda>graph_data. descend graph_data segments))"

text \<open>
  The graph one nesting level per segment below a graph, in the words of the
  specification: each segment takes \<open>graph_data["tasks"][segment]["executor"]["graph_data"]\<close>.
\<close>

inductive subgraph_at :: "pyval \<Rightarrow> string list \<Rightarrow> pyval \<Rightarrow> bool" where
  here: "subgraph_at g [] g"
| below: "getitem g ''tasks'' = Inr tasks \<Longrightarrow> getitem tasks segment = Inr task \<Longrightarrow>
     getitem task ''executor'' = Inr executor \<Longrightarrow> getitem executor ''graph_data'' = Inr inner \<Longrightarrow>
     subgraph_at inner segments g' \<Longrightarrow> subgraph_at g (segment # segments) g'"

text \<open>
  The MAP branch. \<open>shallow_copy_nested_dict\<close> gives every prefix a dictionary of its
  own with the content of the child's; as a value that is the child's data.
\<close>

definition shallow_copy_nested_dict :: "pyval \<Rightarrow> pyval" where
  "shallow_copy_nested_dict d = d"

fun copy_prefixes :: "pyval \<Rightarrow> string \<Rightarrow> string list \<Rightarrow> json_object \<Rightarrow> exc + json_object" where
  "copy_prefixes child_data child [] tasks = Inr tasks"
| "copy_prefixes child_data child (p # ps) tasks =
     bind_exc (setitem (shallow_copy_nested_dict child_data) ''name'' (PStr (p @ ''_'' @ child)))
       (\<lambda>new_data.
          copy_prefixes child_data child ps (AList.update (p @ ''_'' @ child) new_data tasks))"

fun copy_tasks ::
  "(pyval \<Rightarrow> exc + pyval) \<Rightarrow> pyval \<Rightarrow> string list \<Rightarrow> string list \<Rightarrow> json_object
     \<Rightarrow> exc + json_object" where
  "copy_tasks deserialize_unsafe wg_data [] pfxs tasks = Inr tasks"
| "copy_tasks deserialize_unsafe wg_data (child # cs) pfxs tasks =
     bind_exc (getitem wg_data ''tasks'') (\<lambda>all_tasks.
     bind_exc (getitem all_tasks child) (\<lambda>raw.
     bind_exc (deserialize_unsafe raw) (\<lambda>child_data.
     bind_exc (copy_prefixes child_data child pfxs tasks)
       (copy_tasks deserialize_unsafe wg_data cs pfxs))))"

definition prefixed_link :: "string \<Rightarrow> map_link \<Rightarrow> pyval" where
  "prefixed_link p link =
     PDict [(''from_node'', PStr (p @ ''_'' @ from_node link)),
            (''to_node'', PStr (p @ ''_'' @ to_node link)),
            (''from_socket'', from_socket link), (''to_socket'', to_socket link)]"

fun link_prefixes :: "map_link \<Rightarrow> string list \<Rightarrow> pyval list \<Rightarrow> pyval list" where
  "link_prefixes link [] out = out"
| "link_prefixes link (p # ps) out = link_prefixes link ps (out @ [prefixed_link p link])"

fun copy_links :: "string list \<Rightarrow> string list \<Rightarrow> map_link list \<Rightarrow> pyval list \<Rightarrow> pyval list" where
  "copy_links cs pfxs [] out = out"
| "copy_links cs pfxs (link # ls) out =
     copy_links cs pfxs ls
       (if from_node link \<in> set cs \<and> to_node link \<in> set cs
        then link_prefixes link pfxs out else out)"

text \<open>\<open>task_map_info.get(segments[0])\<close> is None for a task without map information.\<close>

definition map_branch ::
  "(pyval \<Rightarrow> exc + pyval) \<Rightarrow> pyval \<Rightarrow> map_info option \<Rightarrow> string list \<Rightarrow> exc + pyval" where
  "map_branch deserialize_unsafe wg_data info segments =
     (case info of
        None \<Rightarrow> Inl TypeError
      | Some map_info \<Rightarrow>
          bind_exc (copy_tasks deserialize_unsafe wg_data (children map_info) (mi_prefix map_info) [])
            (\<lambda>tasks.
               Inr (PDict [(''name'', PStr (last segments)), (''uuid'', PStr []),
                      (''tasks'', PDict tasks),
                      (''links'', PList (copy_links (children map_info) (mi_prefix map_info)
                                           (links map_info) []))])))"

text \<open>
  From \<open>content = workgraph_to_short_json(graph_data)\<close> to the return: the view with
  its summary, its parents and its empty process table, or nothing when there is no
  view.
\<close>

definition with_empty_summary :: "pyval \<Rightarrow> int \<Rightarrow> string list \<Rightarrow> pyval \<Rightarrow> exc + pyval" where
  "with_empty_summary label ident segments content =
     (if content = PNone then Inr PNone
      else
        bind_exc (setitem content ''summary''
                   (PDict [(''table'', PList []), (''inputs'', PDict []), (''outputs'', PDict [])]))
          (\<lambda>c1.
        bind_exc (setitem c1 ''parent_workgraphs''
                   (PList (PList [label, PInt ident] # map PStr segments))) (\<lambda>c2.
        setitem c2 ''processes_info'' (PDict []))))"

text \<open>The body of the \<open>try\<close> of \<open>read_sub_workgraph\<close>.\<close>

definition read_sub_workgraph_try ::
  "(int \<Rightarrow> exc + 'node) \<Rightarrow> ('node \<Rightarrow> pyval) \<Rightarrow> ('node \<Rightarrow> pyval)
     \<Rightarrow> ('node \<Rightarrow> (string \<times> map_info) list) \<Rightarrow> ('node \<Rightarrow> pyval)
     \<Rightarrow> (pyval \<Rightarrow> exc + pyval) \<Rightarrow> (pyval \<Rightarrow> exc + pyval) \<Rightarrow> int \<Rightarrow> string \<Rightarrow> exc + pyval" where
  "read_sub_workgraph_try load_node workgraph_data task_executors task_map_info process_label
       deserialize_unsafe workgraph_to_short_json ident path =
     bind_exc (load_node ident) (\<lambda>node.
       case split_slash path of
         [] \<Rightarrow> Inl (OtherError ''IndexError'')
       | segment0 # rest \<Rightarrow>
           bind_exc (getitem (workgraph_data node) ''tasks'') (\<lambda>all_tasks.
           bind_exc (getitem all_tasks segment0) (\<lambda>raw.
           bind_exc (deserialize_unsafe raw) (\<lambda>ndata.
           bind_exc (node_type_upper ndata) (\<lambda>node_type.
           bind_exc
             (if node_type = ''WORKGRAPH'' then
                workgraph_branch (task_executors node) segment0 rest
              else if node_type = ''MAP'' then
                map_branch deserialize_unsafe (workgraph_data node)
                  (map_of (task_map_info node) segment0) (segment0 # rest)
              else Inl UnboundLocalError)
             (\<lambda>graph_data.
           bind_exc (workgraph_to_short_json graph_data)
             (with_empty_summary (process_label node) ident (segment0 # rest))))))))"

text \<open>\<open>except KeyError as e\<close>: a KeyError becomes a 404, anything else passes.\<close>

definition read_sub_workgraph ::
  "(exc \<Rightarrow> string) \<Rightarrow> (int \<Rightarrow> exc + 'node) \<Rightarrow> ('node \<Rightarrow> pyval) \<Rightarrow> ('node \<Rightarrow> pyval)
     \<Rightarrow> ('node \<Rightarrow> (string \<times> map_info) list) \<Rightarrow> ('node \<Rightarrow> pyval)
     \<Rightarrow> (pyval \<Rightarrow> exc + pyval) \<Rightarrow> (pyval \<Rightarrow> exc + pyval) \<Rightarrow> int \<Rightarrow> string \<Rightarrow> exc + pyval" where
  "read_sub_workgraph str_exc load_node workgraph_data task_executors task_map_info process_label
       deserialize_unsafe workgraph_to_short_json ident path =
     (case read_sub_workgraph_try load_node workgraph_data task_executors task_map_info
             process_label deserialize_unsafe workgraph_to_short_json ident path of
        Inl (KeyError k) \<Rightarrow>
          Inl (HTTPException 404
                 (''Workgraph '' @ str_int ident @ ''/'' @ path @ '' not found, ''
                    @ str_exc (KeyError k)))
      | r \<Rightarrow> r)"

text \<open>\<open>read_workgraph\<close>: the body of its \<open>try\<close>, and the handler.\<close>

definition read_workgraph_try ::
  "(int \<Rightarrow> exc + 'node) \<Rightarrow> ('node \<Rightarrow> exc + pyval) \<Rightarrow> ('node \<Rightarrow> exc + pyval)
     \<Rightarrow> (int \<Rightarrow> exc + pyval) \<Rightarrow> (int \<Rightarrow> exc + pyval) \<Rightarrow> (int \<Rightarrow> exc + pyval list)
     \<Rightarrow> int \<Rightarrow> exc + pyval" where
  "read_workgraph_try load_node workgraph_data_short get_node_summary get_node_inputs
       get_node_outputs get_parent_workgraphs ident =
     bind_exc (load_node ident) (\<lambda>node.
     bind_exc (workgraph_data_short node) (\<lambda>content.
       if content = PNone then Inr PNone
       else
         bind_exc (get_node_summary node) (\<lambda>table.
         bind_exc (get_node_inputs ident) (\<lambda>inputs.
         bind_exc (get_node_outputs ident) (\<lambda>outputs.
         bind_exc (get_parent_workgraphs ident) (\<lambda>parent_workgraphs.
         bind_exc (setitem content ''summary''
                    (PDict [(''table'', table), (''inputs'', inputs), (''outputs'', outputs)]))
           (\<lambda>c1.
         bind_exc (setitem c1 ''parent_workgraphs'' (PList (rev parent_workgraphs))) (\<lambda>c2.
         setitem c2 ''processes_info'' (PDict [])))))))))"

definition read_workgraph ::
  "(exc \<Rightarrow> string) \<Rightarrow> (int \<Rightarrow> exc + 'node) \<Rightarrow> ('node \<Rightarrow> exc + pyval) \<Rightarrow> ('node \<Rightarrow> exc + pyval)
     \<Rightarrow> (int \<Rightarrow> exc + pyval) \<Rightarrow> (int \<Rightarrow> exc + pyval) \<Rightarrow> (int \<Rightarrow> exc + pyval list)
     \<Rightarrow> int \<Rightarrow> exc + pyval" where
  "read_workgraph str_exc load_node workgraph_data_short get_node_summary get_node_inputs
       get_node_outputs get_parent_workgraphs ident =
     (case read_workgraph_try load_node workgraph_data_short get_node_summary get_node_inputs
             get_node_outputs get_parent_workgraphs ident of
        Inl (KeyError k) \<Rightarrow>
          Inl (HTTPException 404
                 (''Workgraph '' @ str_int ident @ '' not found, '' @ str_exc (KeyError k)))
      | r \<Rightarrow> r)"

section \<open>workgraph.py: process control\<close>

text \<open>
  \<open>load_node\<close>, \<open>pause_processes\<close> and \<open>play_processes\<close> are AiiDA's; they are
  parameters, and may raise. \<open>str_exc\<close> is Python's \<open>str\<close> of an exception.
\<close>

definition pause_workgraph ::
  "(exc \<Rightarrow> string) \<Rightarrow> (int \<Rightarrow> exc + 'node) \<Rightarrow> ('node list \<Rightarrow> exc + 'u) \<Rightarrow> int
     \<Rightarrow> exc + (string \<times> string) list" where
  "pause_workgraph str_exc load_node pause_processes ident =
     (case load_node ident of
        Inl e \<Rightarrow> Inl (HTTPException 500 (str_exc e))
      | Inr node \<Rightarrow>
          (case pause_processes [node] of
             Inl e \<Rightarrow> Inl (HTTPException 500 (str_exc e))
           | Inr _ \<Rightarrow> Inr [(''message'', ''Send message to pause workgraph '' @ str_int ident)]))"

definition play_workgraph ::
  "(exc \<Rightarrow> string) \<Rightarrow> (int \<Rightarrow> exc + 'node) \<Rightarrow> ('node list \<Rightarrow> exc + 'u) \<Rightarrow> int
     \<Rightarrow> exc + (string \<times> string) list" where
  "play_workgraph str_exc load_node play_processes ident =
     (case load_node ident of
        Inl e \<Rightarrow> Inl (HTTPException 500 (str_exc e))
      | Inr node \<Rightarrow>
          (case play_processes [node] of
             Inl e \<Rightarrow> Inl (HTTPException 500 (str_exc e))
           | Inr _ \<Rightarrow> Inr [(''message'', ''Send message to play workgraph '' @ str_int ident)]))"

text \<open>
  \<open>manage_task_action\<close>: the three control functions of aiida_workgraph return a pair
  whose second component is the message. The whole body is inside
  \<open>try ... except Exception\<close>, the 400 raised for an unknown action included.
\<close>

definition manage_task_action ::
  "(exc \<Rightarrow> string)
     \<Rightarrow> (int \<Rightarrow> string list option \<Rightarrow> exc + ('u \<times> string))
     \<Rightarrow> (int \<Rightarrow> string list option \<Rightarrow> exc + ('u \<times> string))
     \<Rightarrow> (int \<Rightarrow> string list option \<Rightarrow> exc + ('u \<times> string))
     \<Rightarrow> string \<Rightarrow> int \<Rightarrow> string list option \<Rightarrow> exc + (string \<times> string) list" where
  "manage_task_action str_exc pause_tasks play_tasks kill_tasks action ident tasks =
     (case (if action = ''pause'' then pause_tasks ident tasks
            else if action = ''play'' then play_tasks ident tasks
            else if action = ''kill'' then kill_tasks ident tasks
            else Inl (HTTPException 400 ''Unsupported action'')) of
        Inl e \<Rightarrow> Inl (HTTPException 500 (str_exc e))
      | Inr (_, msg) \<Rightarrow> Inr [(''message'', msg)])"

section \<open>Deleting nodes (workgraph.py and datanode.py)\<close>

text \<open>
  AiiDA's \<open>delete_nodes\<close> returns the pks it deleted (or would delete) and whether the
  deletion happened; the pks are given here in the order \<open>list(deleted_nodes)\<close> yields.
\<close>

record delete_response =
  deleted :: bool
  message :: string
  deleted_nodes :: "int list"

definition delete_workgraph ::
  "(exc \<Rightarrow> string) \<Rightarrow> (int list \<Rightarrow> bool \<Rightarrow> exc + (int list \<times> bool)) \<Rightarrow> int \<Rightarrow> bool
     \<Rightarrow> exc + delete_response" where
  "delete_workgraph str_exc delete_nodes ident dry_run =
     (case delete_nodes [ident] dry_run of
        Inl e \<Rightarrow> Inl (HTTPException 500 (str_exc e))
      | Inr (pks, was_deleted) \<Rightarrow>
          if was_deleted then
            Inr \<lparr>deleted = True, message = ''Deleted workgraph '' @ str_int ident,
                 deleted_nodes = pks\<rparr>
          else
            (let message0 = ''Did not delete workgraph '' @ str_int ident;
                 message1 = (if dry_run then message0 @ '' [dry-run]'' else message0)
             in Inr \<lparr>deleted = False, message = message1, deleted_nodes = pks\<rparr>))"

definition delete_data_node ::
  "(exc \<Rightarrow> string) \<Rightarrow> (int list \<Rightarrow> bool \<Rightarrow> exc + (int list \<times> bool)) \<Rightarrow> int \<Rightarrow> bool
     \<Rightarrow> exc + delete_response" where
  "delete_data_node str_exc delete_nodes ident dry_run =
     (case delete_nodes [ident] dry_run of
        Inl e \<Rightarrow> Inl (HTTPException 500 (str_exc e))
      | Inr (pks, was_deleted) \<Rightarrow>
          if was_deleted then
            Inr \<lparr>deleted = True, message = ''Deleted data node '' @ str_int ident,
                 deleted_nodes = pks\<rparr>
          else
            (let message0 = ''Did not delete data node '' @ str_int ident;
                 message1 = (if dry_run then message0 @ '' [dry-run]'' else message0)
             in Inr \<lparr>deleted = False, message = message1, deleted_nodes = pks\<rparr>))"

section \<open>Sequencing and the printed node id\<close>

lemma bind_exc_Inr: "bind_exc m f = Inr y \<longleftrightarrow> (\<exists>x. m = Inr x \<and> f x = Inr y)"
  by (cases m) (simp_all add: bind_exc_def)

lemma bind_exc_Inl [simp]: "bind_exc (Inl e) f = Inl e"
  by (simp add: bind_exc_def)

lemma bind_exc_Inr_simp [simp]: "bind_exc (Inr x) f = f x"
  by (simp add: bind_exc_def)

lemma str_nat_nonempty: "str_nat n \<noteq> []"
  by (induction n rule: str_nat.induct) (subst str_nat.simps, simp)

lemma digit_char_not_bracket: "d < 10 \<Longrightarrow> digit_char d \<noteq> CHR '']''"
proof -
  assume "d < 10"
  then have "d \<in> {0, 1, 2, 3, 4, 5, 6, 7, 8, 9}" by auto
  then show ?thesis
    by (auto simp: digit_char_def char_of_def)
qed

lemma last_str_nat: "last (str_nat n) = digit_char (n mod 10)"
  by (subst str_nat.simps) simp

lemma last_str_int: "last (str_int i) \<noteq> CHR '']''"
proof -
  have "last (str_int i) = digit_char (nat \<bar>i\<bar> mod 10)"
    by (simp add: str_int_def str_nat_nonempty last_str_nat)
  then show ?thesis
    by (simp add: digit_char_not_bracket)
qed

lemma str_int_nonempty: "str_int i \<noteq> []"
  by (simp add: str_int_def str_nat_nonempty)

lemma no_dry_run_suffix: "\<not> suffix '' [dry-run]'' (pre @ str_int i)"
proof
  assume "suffix '' [dry-run]'' (pre @ str_int i)"
  then obtain zs where "pre @ str_int i = zs @ '' [dry-run]''"
    by (auto simp: suffix_def)
  then have "last (pre @ str_int i) = CHR '']''"
    by simp
  then show False
    using last_str_int [of i] by (simp add: str_int_nonempty)
qed

section \<open>The parameters of the list endpoints\<close>

lemma Query_int_Inr:
  "Query_int dflt ge gt le raw = Inr v \<Longrightarrow>
     (raw = None \<and> v = dflt) \<or>
     (raw = Some v \<and> (\<forall>b. ge = Some b \<longrightarrow> b \<le> v) \<and> (\<forall>b. gt = Some b \<longrightarrow> b < v)
        \<and> (\<forall>b. le = Some b \<longrightarrow> v \<le> b))"
  by (auto simp: Query_int_def split: option.splits if_splits)

lemma Query_str_Inr:
  "Query_str dflt alts raw = Inr v \<Longrightarrow> (raw = None \<and> v = dflt) \<or> (raw = Some v \<and> v \<in> set alts)"
  by (auto simp: Query_str_def split: option.splits if_splits)

lemma list_parameters_Inr:
  assumes "list_parameters pat raw = Inr q"
  shows "0 \<le> skip q \<and> 0 < limit q \<and> limit q \<le> 500
     \<and> sortField q \<in> set (''pk'' # pat) \<and> sortOrder q \<in> {''asc'', ''desc''}
     \<and> filterModel q = raw_filterModel raw"
proof -
  from assms obtain sk li sf so where
    sk: "Query_int 0 (Some 0) None None (raw_skip raw) = Inr sk" and
    li: "Query_int 15 None (Some 0) (Some 500) (raw_limit raw) = Inr li" and
    sf: "Query_str ''pk'' pat (raw_sortField raw) = Inr sf" and
    so: "Query_str ''desc'' [''asc'', ''desc''] (raw_sortOrder raw) = Inr so" and
    q: "q = \<lparr>skip = sk, limit = li, sortField = sf, sortOrder = so,
            filterModel = raw_filterModel raw\<rparr>"
    unfolding list_parameters_def bind_exc_Inr by auto
  from Query_int_Inr [OF sk] have "0 \<le> sk" by auto
  moreover from Query_int_Inr [OF li] have "0 < li \<and> li \<le> 500" by auto
  moreover from Query_str_Inr [OF sf] have "sf \<in> set (''pk'' # pat)" by auto
  moreover from Query_str_Inr [OF so] have "so \<in> {''asc'', ''desc''}" by auto
  ultimately show ?thesis using q by simp
qed

lemma datanode_sort_col:
  "sf \<in> set (''pk'' # datanode_sort_pattern) \<Longrightarrow> \<exists>col. map_of datanode_col_map sf = Some col"
  by (auto simp: datanode_sort_pattern_def datanode_col_map_def)

lemma workgraph_sort_col:
  "sf \<in> set (''pk'' # workgraph_sort_pattern) \<Longrightarrow> \<exists>col. map_of workgraph_col_map sf = Some col"
  by (auto simp: workgraph_sort_pattern_def workgraph_col_map_def)

lemma list_parameters_reject:
  assumes "(\<exists>v. raw_skip raw = Some v \<and> v < 0)
     \<or> (\<exists>v. raw_limit raw = Some v \<and> (v \<le> 0 \<or> 500 < v))
     \<or> (\<exists>v. raw_sortField raw = Some v \<and> v \<notin> set pat)
     \<or> (\<exists>v. raw_sortOrder raw = Some v \<and> v \<noteq> ''asc'' \<and> v \<noteq> ''desc'')"
  shows "list_parameters pat raw = Inl RequestValidationError"
  using assms
  by (auto simp: list_parameters_def Query_int_def Query_str_def bind_exc_def
      split: option.splits sum.splits)

text \<open>
  C10. Both list endpoints reject a request with skip < 0, limit <= 0, limit > 500, a
  sortField outside the endpoint's pattern or a sortOrder other than asc and desc before
  the handler body runs. So the handler body only runs with skip >= 0, 0 < limit <= 500
  and a sortField that is a key of the handler's column map. A request without
  parameters gets skip = 0, limit = 15, sortField = "pk" and sortOrder = "desc".
\<close>

theorem list_parameters_validated:
  "(list_parameters datanode_sort_pattern raw = Inr q \<longrightarrow>
       0 \<le> skip q \<and> 0 < limit q \<and> limit q \<le> 500
       \<and> sortField q \<in> dom (map_of datanode_col_map) \<and> sortOrder q \<in> {''asc'', ''desc''})
   \<and> (list_parameters workgraph_sort_pattern raw = Inr q \<longrightarrow>
       0 \<le> skip q \<and> 0 < limit q \<and> limit q \<le> 500
       \<and> sortField q \<in> dom (map_of workgraph_col_map) \<and> sortOrder q \<in> {''asc'', ''desc''})
   \<and> ((\<exists>v. raw_skip raw = Some v \<and> v < 0)
       \<or> (\<exists>v. raw_limit raw = Some v \<and> (v \<le> 0 \<or> 500 < v))
       \<or> (\<exists>v. raw_sortField raw = Some v \<and> v \<notin> set datanode_sort_pattern)
       \<or> (\<exists>v. raw_sortOrder raw = Some v \<and> v \<noteq> ''asc'' \<and> v \<noteq> ''desc'') \<longrightarrow>
       get_datanode_data py time_ago db raw = Inl RequestValidationError)
   \<and> ((\<exists>v. raw_skip raw = Some v \<and> v < 0)
       \<or> (\<exists>v. raw_limit raw = Some v \<and> (v \<le> 0 \<or> 500 < v))
       \<or> (\<exists>v. raw_sortField raw = Some v \<and> v \<notin> set workgraph_sort_pattern)
       \<or> (\<exists>v. raw_sortOrder raw = Some v \<and> v \<noteq> ''asc'' \<and> v \<noteq> ''desc'') \<longrightarrow>
       get_workgraph_data py translate time_ago' db' raw = Inl RequestValidationError)
   \<and> list_parameters pat
        \<lparr>raw_skip = None, raw_limit = None, raw_sortField = None, raw_sortOrder = None,
         raw_filterModel = fm\<rparr>
      = Inr \<lparr>skip = 0, limit = 15, sortField = ''pk'', sortOrder = ''desc'', filterModel = fm\<rparr>"
proof -
  have p1: "list_parameters datanode_sort_pattern raw = Inr q \<longrightarrow>
       0 \<le> skip q \<and> 0 < limit q \<and> limit q \<le> 500
       \<and> sortField q \<in> dom (map_of datanode_col_map) \<and> sortOrder q \<in> {''asc'', ''desc''}"
  proof
    assume a: "list_parameters datanode_sort_pattern raw = Inr q"
    from list_parameters_Inr [OF a] datanode_sort_col [of "sortField q"]
    show "0 \<le> skip q \<and> 0 < limit q \<and> limit q \<le> 500
       \<and> sortField q \<in> dom (map_of datanode_col_map) \<and> sortOrder q \<in> {''asc'', ''desc''}"
      by (auto simp: dom_def)
  qed
  have p2: "list_parameters workgraph_sort_pattern raw = Inr q \<longrightarrow>
       0 \<le> skip q \<and> 0 < limit q \<and> limit q \<le> 500
       \<and> sortField q \<in> dom (map_of workgraph_col_map) \<and> sortOrder q \<in> {''asc'', ''desc''}"
  proof
    assume a: "list_parameters workgraph_sort_pattern raw = Inr q"
    from list_parameters_Inr [OF a] workgraph_sort_col [of "sortField q"]
    show "0 \<le> skip q \<and> 0 < limit q \<and> limit q \<le> 500
       \<and> sortField q \<in> dom (map_of workgraph_col_map) \<and> sortOrder q \<in> {''asc'', ''desc''}"
      by (auto simp: dom_def)
  qed
  have p3: "(\<exists>v. raw_skip raw = Some v \<and> v < 0)
       \<or> (\<exists>v. raw_limit raw = Some v \<and> (v \<le> 0 \<or> 500 < v))
       \<or> (\<exists>v. raw_sortField raw = Some v \<and> v \<notin> set datanode_sort_pattern)
       \<or> (\<exists>v. raw_sortOrder raw = Some v \<and> v \<noteq> ''asc'' \<and> v \<noteq> ''desc'') \<longrightarrow>
       get_datanode_data py time_ago db raw = Inl RequestValidationError"
    by (simp add: get_datanode_data_def list_parameters_reject)
  have p4: "(\<exists>v. raw_skip raw = Some v \<and> v < 0)
       \<or> (\<exists>v. raw_limit raw = Some v \<and> (v \<le> 0 \<or> 500 < v))
       \<or> (\<exists>v. raw_sortField raw = Some v \<and> v \<notin> set workgraph_sort_pattern)
       \<or> (\<exists>v. raw_sortOrder raw = Some v \<and> v \<noteq> ''asc'' \<and> v \<noteq> ''desc'') \<longrightarrow>
       get_workgraph_data py translate time_ago' db' raw = Inl RequestValidationError"
    by (simp add: get_workgraph_data_def list_parameters_reject)
  have p5: "list_parameters pat
        \<lparr>raw_skip = None, raw_limit = None, raw_sortField = None, raw_sortOrder = None,
         raw_filterModel = fm\<rparr>
      = Inr \<lparr>skip = 0, limit = 15, sortField = ''pk'', sortOrder = ''desc'', filterModel = fm\<rparr>"
    by (simp add: list_parameters_def Query_int_def Query_str_def)
  show ?thesis
    by (rule conjI [OF p1 conjI [OF p2 conjI [OF p3 conjI [OF p4 p5]]]])
qed

theorem list_parameters_validated_witness:
  "list_parameters datanode_sort_pattern
       \<lparr>raw_skip = Some 30, raw_limit = Some 500, raw_sortField = Some ''label'',
        raw_sortOrder = Some ''asc'', raw_filterModel = None\<rparr>
     = Inr \<lparr>skip = 30, limit = 500, sortField = ''label'', sortOrder = ''asc'',
            filterModel = None\<rparr>
   \<and> ''label'' \<in> dom (map_of datanode_col_map)
   \<and> get_datanode_data \<lparr>json_loads = (\<lambda>s. Inl JSONDecodeError), str_of = (\<lambda>v. ''?''), int_of_str = (\<lambda>s. None),
            isdigit = (\<lambda>s. False), title = (\<lambda>s. s)\<rparr> (\<lambda>t :: nat. ''now'')
        \<lparr>rows = [], matches = (\<lambda>f r. True), order_rows = (\<lambda>c d rs. rs)\<rparr>
        \<lparr>raw_skip = Some 0, raw_limit = Some 501, raw_sortField = None, raw_sortOrder = None,
         raw_filterModel = None\<rparr>
      = Inl RequestValidationError
   \<and> get_workgraph_data \<lparr>json_loads = (\<lambda>s. Inl JSONDecodeError), str_of = (\<lambda>v. ''?''), int_of_str = (\<lambda>s. None),
            isdigit = (\<lambda>s. False), title = (\<lambda>s. s)\<rparr> (\<lambda>s. Inr (PDict [])) (\<lambda>t :: nat. ''now'')
        \<lparr>rows = [], matches = (\<lambda>f r. True), order_rows = (\<lambda>c d rs. rs)\<rparr>
        \<lparr>raw_skip = None, raw_limit = None, raw_sortField = Some ''status'',
         raw_sortOrder = None, raw_filterModel = None\<rparr>
      = Inl RequestValidationError"
proof -
  have a: "list_parameters datanode_sort_pattern
       \<lparr>raw_skip = Some 30, raw_limit = Some 500, raw_sortField = Some ''label'',
        raw_sortOrder = Some ''asc'', raw_filterModel = None\<rparr>
     = Inr \<lparr>skip = 30, limit = 500, sortField = ''label'', sortOrder = ''asc'',
            filterModel = None\<rparr>"
    by (simp add: list_parameters_def Query_int_def Query_str_def datanode_sort_pattern_def)
  have b: "''label'' \<in> dom (map_of datanode_col_map)"
    using list_parameters_validated [THEN conjunct1, THEN mp, OF a] by simp
  have c: "get_datanode_data \<lparr>json_loads = (\<lambda>s. Inl JSONDecodeError), str_of = (\<lambda>v. ''?''), int_of_str = (\<lambda>s. None),
            isdigit = (\<lambda>s. False), title = (\<lambda>s. s)\<rparr> (\<lambda>t :: nat. ''now'')
        \<lparr>rows = [], matches = (\<lambda>f r. True), order_rows = (\<lambda>c d rs. rs)\<rparr>
        \<lparr>raw_skip = Some 0, raw_limit = Some 501, raw_sortField = None, raw_sortOrder = None,
         raw_filterModel = None\<rparr>
      = Inl RequestValidationError"
    by (rule list_parameters_validated
          [THEN conjunct2, THEN conjunct2, THEN conjunct1, THEN mp]) simp
  have d: "get_workgraph_data \<lparr>json_loads = (\<lambda>s. Inl JSONDecodeError), str_of = (\<lambda>v. ''?''), int_of_str = (\<lambda>s. None),
            isdigit = (\<lambda>s. False), title = (\<lambda>s. s)\<rparr> (\<lambda>s. Inr (PDict [])) (\<lambda>t :: nat. ''now'')
        \<lparr>rows = [], matches = (\<lambda>f r. True), order_rows = (\<lambda>c d rs. rs)\<rparr>
        \<lparr>raw_skip = None, raw_limit = None, raw_sortField = Some ''status'',
         raw_sortOrder = None, raw_filterModel = None\<rparr>
      = Inl RequestValidationError"
    by (rule list_parameters_validated
          [THEN conjunct2, THEN conjunct2, THEN conjunct2, THEN conjunct1, THEN mp])
      (simp add: workgraph_sort_pattern_def)
  show ?thesis
    using a b c d by simp
qed

section \<open>The pages of the list endpoints\<close>

lemma attribute_path_samples:
  "attribute_path ''attributes.process_state''" "attribute_path ''attributes.process_label''"
  "\<not> attribute_path ''id''" "\<not> attribute_path ''ctime''" "\<not> attribute_path ''node_type''"
  "\<not> attribute_path ''label''" "\<not> attribute_path ''description''"
  by (simp_all add: attribute_path_def)

lemma datanode_col_plain:
  "map_of datanode_col_map sf = Some col \<Longrightarrow> \<not> attribute_path col"
  by (auto simp: datanode_col_map_def attribute_path_def split: if_splits)

lemma qb_count_attribute:
  "attribute_path col \<Longrightarrow> qb_count db (qb_order_by col dir qb) = Inl ValueError"
  by (simp add: qb_count_def qb_run_def qb_order_by_def)

lemma qb_all_page:
  assumes "\<not> attribute_path col" "\<not> big_int_in f" "int64 sk"
  shows "qb_all db (qb_set_limit li (qb_set_offset sk (qb_order_by col dir
            (qb_append f QueryBuilder))))
     = Inr (take (nat li) (drop (nat sk)
              (order_rows db col dir (filter (matches db f) (rows db)))))"
  using assms
  by (simp add: qb_all_def qb_run_def qb_set_limit_def qb_set_offset_def qb_order_by_def
      qb_append_def QueryBuilder_def)

lemma qb_all_offset_overflow:
  assumes "\<not> attribute_path col" "\<not> int64 sk"
  shows "qb_all db (qb_set_limit li (qb_set_offset sk (qb_order_by col dir
            (qb_append f QueryBuilder)))) = Inl OverflowError"
  using assms
  by (simp add: qb_all_def qb_run_def qb_set_limit_def qb_set_offset_def qb_order_by_def
      qb_append_def QueryBuilder_def)

lemma qb_count_unpaged:
  assumes "\<not> attribute_path col" "\<not> big_int_in f"
  shows "qb_count db (qb_order_by col dir (qb_append f QueryBuilder))
     = Inr (int (length (order_rows db col dir (filter (matches db f) (rows db)))))"
  using assms
  by (simp add: qb_count_def qb_run_def qb_order_by_def qb_append_def QueryBuilder_def)

lemma length_of_permutation: "mset xs = mset ys \<Longrightarrow> length xs = length ys"
  by (metis size_mset)

lemma workgraph_items_Inr:
  "workgraph_items py time_ago rs = Inr items \<longleftrightarrow> map Inr items = map (workgraph_item py time_ago) rs"
proof (induction rs arbitrary: items)
  case Nil
  then show ?case by auto
next
  case (Cons r rs)
  have "workgraph_items py time_ago (r # rs) = Inr items \<longleftrightarrow>
      (\<exists>i its. items = i # its \<and> workgraph_item py time_ago r = Inr i
         \<and> workgraph_items py time_ago rs = Inr its)"
    by (auto simp: bind_exc_Inr)
  also have "\<dots> \<longleftrightarrow>
      (\<exists>i its. items = i # its \<and> Inr i = workgraph_item py time_ago r
         \<and> map Inr its = map (workgraph_item py time_ago) rs)"
    using Cons.IH by auto
  also have "\<dots> \<longleftrightarrow> map Inr items = map (workgraph_item py time_ago) (r # rs)"
    by (cases items) auto
  finally show ?case .
qed

text \<open>A row without a process state makes the projection of the page raise.\<close>

lemma workgraph_item_without_state:
  "w_process_state r = None \<Longrightarrow> workgraph_item py time_ago r = Inl AttributeError"
  by (simp add: workgraph_item_def)

lemma datanode_page:
  assumes q: "list_parameters datanode_sort_pattern raw = Inr q"
    and f: "datanode_filters py (filterModel q) = Inr f"
    and col: "map_of datanode_col_map (sortField q) = Some col"
    and small: "\<not> big_int_in f" "int64 (skip q)"
  shows "get_datanode_data py time_ago db raw =
     Inr \<lparr>total = int (length (order_rows db col (sortOrder q) (filter (matches db f) (rows db)))),
          data = map (datanode_item time_ago)
              (take (nat (limit q)) (drop (nat (skip q))
                 (order_rows db col (sortOrder q) (filter (matches db f) (rows db)))))\<rparr>"
  unfolding get_datanode_data_def read_datanode_data_def
  by (simp add: q f col Let_def qb_all_page qb_count_unpaged small datanode_col_plain [OF col])

lemma workgraph_page:
  assumes q: "list_parameters workgraph_sort_pattern raw = Inr q"
    and f: "workgraph_filters translate (filterModel q) = Inr f"
    and col: "map_of workgraph_col_map (sortField q) = Some col"
    and plain: "\<not> attribute_path col"
    and small: "\<not> big_int_in f" "int64 (skip q)"
    and items: "workgraph_items py time_ago (take (nat (limit q)) (drop (nat (skip q))
                 (order_rows db col (sortOrder q) (filter (matches db f) (rows db))))) = Inr items"
  shows "get_workgraph_data py translate time_ago db raw =
     Inr \<lparr>total = int (length (order_rows db col (sortOrder q) (filter (matches db f) (rows db)))),
          data = items\<rparr>"
  unfolding get_workgraph_data_def read_workgraph_data_def
  by (simp add: q f col items Let_def qb_all_page qb_count_unpaged plain small)

text \<open>
  The requests the database answers. For a request that passes the parameter checks,
  whose filterModel translates to filters \<open>f\<close> without an integer beyond 64 bits, with
  skip below \<open>2^63\<close> and, for the workgraphs, a sort column that is not inside
  \<open>attributes\<close> and a process state in every row of the page: the filters are applied,
  the rows are ordered by the column that \<open>col_map\<close> gives for sortField, in direction
  sortOrder, \<open>total\<close> is the number of all rows matching the filters (counted before
  offset and limit are set), and \<open>data\<close> holds the rows from offset skip on, at most
  limit of them, each projected. The ordering of AiiDA is assumed to permute the rows.
\<close>

lemma list_endpoints_page:
  assumes perm: "\<forall>c d rs. mset (order_rows db c d rs) = mset rs"
    and perm': "\<forall>c d rs. mset (order_rows wdb c d rs) = mset rs"
  shows
  "(list_parameters datanode_sort_pattern raw = Inr q
      \<and> datanode_filters py (filterModel q) = Inr f \<and> \<not> big_int_in f \<and> skip q < 2 ^ 63 \<longrightarrow>
      (\<exists>col p. map_of datanode_col_map (sortField q) = Some col
         \<and> get_datanode_data py time_ago db raw = Inr p
         \<and> total p = int (length (filter (matches db f) (rows db)))
         \<and> data p = map (datanode_item time_ago)
              (take (nat (limit q)) (drop (nat (skip q))
                 (order_rows db col (sortOrder q) (filter (matches db f) (rows db)))))
         \<and> int (length (data p)) \<le> limit q))
   \<and> (list_parameters workgraph_sort_pattern raw = Inr q
      \<and> workgraph_filters translate (filterModel q) = Inr f \<and> \<not> big_int_in f
      \<and> skip q < 2 ^ 63
      \<and> map_of workgraph_col_map (sortField q) = Some wcol \<and> \<not> attribute_path wcol
      \<and> workgraph_items py time_ago' (take (nat (limit q)) (drop (nat (skip q))
            (order_rows wdb wcol (sortOrder q) (filter (matches wdb f) (rows wdb))))) = Inr items
      \<longrightarrow>
      (\<exists>p. get_workgraph_data py translate time_ago' wdb raw = Inr p
         \<and> total p = int (length (filter (matches wdb f) (rows wdb)))
         \<and> data p = items
         \<and> map Inr items = map (workgraph_item py time_ago')
              (take (nat (limit q)) (drop (nat (skip q))
                 (order_rows wdb wcol (sortOrder q) (filter (matches wdb f) (rows wdb)))))
         \<and> int (length (data p)) \<le> limit q))"
proof -
  have len: "\<And>c d rs. length (order_rows db c d rs) = length rs"
    by (rule length_of_permutation) (simp add: perm)
  have len': "\<And>c d rs. length (order_rows wdb c d rs) = length rs"
    by (rule length_of_permutation) (simp add: perm')
  have p1: "list_parameters datanode_sort_pattern raw = Inr q
      \<and> datanode_filters py (filterModel q) = Inr f \<and> \<not> big_int_in f \<and> skip q < 2 ^ 63 \<longrightarrow>
      (\<exists>col p. map_of datanode_col_map (sortField q) = Some col
         \<and> get_datanode_data py time_ago db raw = Inr p
         \<and> total p = int (length (filter (matches db f) (rows db)))
         \<and> data p = map (datanode_item time_ago)
              (take (nat (limit q)) (drop (nat (skip q))
                 (order_rows db col (sortOrder q) (filter (matches db f) (rows db)))))
         \<and> int (length (data p)) \<le> limit q)"
  proof
    assume a: "list_parameters datanode_sort_pattern raw = Inr q
      \<and> datanode_filters py (filterModel q) = Inr f \<and> \<not> big_int_in f \<and> skip q < 2 ^ 63"
    from list_parameters_Inr [of datanode_sort_pattern raw q] a
    have v: "0 < limit q" "sortField q \<in> set (''pk'' # datanode_sort_pattern)" "0 \<le> skip q"
      by simp_all
    from v(3) a have sk: "int64 (skip q)" by (simp add: int64_def)
    from datanode_sort_col [OF v(2)] obtain col where
      col: "map_of datanode_col_map (sortField q) = Some col" by blast
    note page = datanode_page [of raw q py f col time_ago db]
    have "get_datanode_data py time_ago db raw =
       Inr \<lparr>total = int (length (filter (matches db f) (rows db))),
            data = map (datanode_item time_ago)
                (take (nat (limit q)) (drop (nat (skip q))
                   (order_rows db col (sortOrder q) (filter (matches db f) (rows db)))))\<rparr>"
      using page a col sk by (simp add: len)
    then show "\<exists>col p. map_of datanode_col_map (sortField q) = Some col
         \<and> get_datanode_data py time_ago db raw = Inr p
         \<and> total p = int (length (filter (matches db f) (rows db)))
         \<and> data p = map (datanode_item time_ago)
              (take (nat (limit q)) (drop (nat (skip q))
                 (order_rows db col (sortOrder q) (filter (matches db f) (rows db)))))
         \<and> int (length (data p)) \<le> limit q"
      using col v(1) by (intro exI [of _ col]) simp
  qed
  have p2: "list_parameters workgraph_sort_pattern raw = Inr q
      \<and> workgraph_filters translate (filterModel q) = Inr f \<and> \<not> big_int_in f
      \<and> skip q < 2 ^ 63
      \<and> map_of workgraph_col_map (sortField q) = Some wcol \<and> \<not> attribute_path wcol
      \<and> workgraph_items py time_ago' (take (nat (limit q)) (drop (nat (skip q))
            (order_rows wdb wcol (sortOrder q) (filter (matches wdb f) (rows wdb))))) = Inr items
      \<longrightarrow>
      (\<exists>p. get_workgraph_data py translate time_ago' wdb raw = Inr p
         \<and> total p = int (length (filter (matches wdb f) (rows wdb)))
         \<and> data p = items
         \<and> map Inr items = map (workgraph_item py time_ago')
              (take (nat (limit q)) (drop (nat (skip q))
                 (order_rows wdb wcol (sortOrder q) (filter (matches wdb f) (rows wdb)))))
         \<and> int (length (data p)) \<le> limit q)"
  proof
    assume a: "list_parameters workgraph_sort_pattern raw = Inr q
      \<and> workgraph_filters translate (filterModel q) = Inr f \<and> \<not> big_int_in f
      \<and> skip q < 2 ^ 63
      \<and> map_of workgraph_col_map (sortField q) = Some wcol \<and> \<not> attribute_path wcol
      \<and> workgraph_items py time_ago' (take (nat (limit q)) (drop (nat (skip q))
            (order_rows wdb wcol (sortOrder q) (filter (matches wdb f) (rows wdb))))) = Inr items"
    from list_parameters_Inr [of workgraph_sort_pattern raw q] a
    have v: "0 < limit q" "0 \<le> skip q" by simp_all
    from v(2) a have sk: "int64 (skip q)" by (simp add: int64_def)
    from a have m: "map Inr items = map (workgraph_item py time_ago')
              (take (nat (limit q)) (drop (nat (skip q))
                 (order_rows wdb wcol (sortOrder q) (filter (matches wdb f) (rows wdb)))))"
      by (simp add: workgraph_items_Inr)
    have "length (map (Inr :: json_object \<Rightarrow> exc + json_object) items) \<le> nat (limit q)"
      unfolding m by simp
    then have l: "int (length items) \<le> limit q" using v by simp
    note page = workgraph_page [of raw q translate f wcol py time_ago' wdb items]
    have "get_workgraph_data py translate time_ago' wdb raw =
       Inr \<lparr>total = int (length (filter (matches wdb f) (rows wdb))), data = items\<rparr>"
      using page a sk by (simp add: len')
    then show "\<exists>p. get_workgraph_data py translate time_ago' wdb raw = Inr p
         \<and> total p = int (length (filter (matches wdb f) (rows wdb)))
         \<and> data p = items
         \<and> map Inr items = map (workgraph_item py time_ago')
              (take (nat (limit q)) (drop (nat (skip q))
                 (order_rows wdb wcol (sortOrder q) (filter (matches wdb f) (rows wdb)))))
         \<and> int (length (data p)) \<le> limit q"
      using m l by simp
  qed
  show ?thesis by (rule conjI [OF p1 p2])
qed

text \<open>
  C1. GET /api/workgraph-data does not answer every request that passes its parameter
  checks with a page. sortField = state and sortField = process_label are accepted by
  the pattern and mapped by \<open>col_map\<close> to \<open>attributes.process_state\<close> and
  \<open>attributes.process_label\<close>; the handler orders by them without a cast, and the
  query is refused with a ValueError when \<open>qb.count()\<close> builds it, whatever the
  database holds. The handler does not catch it, so the request ends in a 500 instead of
  the ordered page with its total.
\<close>

theorem workgraph_sort_by_attribute_raises:
  "get_workgraph_data py translate_datagrid_filter_json time_ago db
       \<lparr>raw_skip = None, raw_limit = None, raw_sortField = Some ''state'',
        raw_sortOrder = None, raw_filterModel = None\<rparr>
     = Inl ValueError
   \<and> get_workgraph_data py translate_datagrid_filter_json time_ago db
       \<lparr>raw_skip = None, raw_limit = None, raw_sortField = Some ''process_label'',
        raw_sortOrder = None, raw_filterModel = None\<rparr>
     = Inl ValueError"
  by (simp add: get_workgraph_data_def list_parameters_def Query_int_def Query_str_def
      workgraph_sort_pattern_def read_workgraph_data_def workgraph_filters_def
      workgraph_col_map_def qb_count_attribute attribute_path_samples)

theorem workgraph_sort_by_attribute_raises_witness:
  "get_workgraph_data
       \<lparr>json_loads = (\<lambda>s. Inl JSONDecodeError), str_of = (\<lambda>v. ''?''),
        int_of_str = (\<lambda>s. None), isdigit = (\<lambda>s. False), title = (\<lambda>s. s)\<rparr>
       (\<lambda>s. Inr (PDict [])) (\<lambda>t :: nat. ''now'')
       \<lparr>rows = [\<lparr>w_id = 3, w_uuid = ''c'', w_ctime = 0, w_process_label = PStr ''WorkGraph'',
                 w_process_state = Some ''finished'', w_process_status = PNone,
                 w_exit_status = PInt 0, w_exit_message = PNone, w_label = ''z'',
                 w_description = ''''\<rparr>],
        matches = (\<lambda>f r. True), order_rows = (\<lambda>c d rs. rs)\<rparr>
       \<lparr>raw_skip = None, raw_limit = None, raw_sortField = Some ''state'',
        raw_sortOrder = None, raw_filterModel = None\<rparr>
     = Inl ValueError"
  by (rule workgraph_sort_by_attribute_raises [THEN conjunct1])

text \<open>
  Two more requests that pass the parameter checks and end in an exception the handlers
  do not catch: an offset beyond 64 bits (skip has no upper bound), on either endpoint,
  and a workgraph row without a process state on the page.
\<close>

lemma skip_beyond_64_bits_raises:
  "get_datanode_data py time_ago db
       \<lparr>raw_skip = Some (2 ^ 63), raw_limit = None, raw_sortField = None,
        raw_sortOrder = None, raw_filterModel = None\<rparr> = Inl OverflowError"
  "get_workgraph_data py translate_datagrid_filter_json time_ago' wdb
       \<lparr>raw_skip = Some (2 ^ 63), raw_limit = None, raw_sortField = None,
        raw_sortOrder = None, raw_filterModel = None\<rparr> = Inl OverflowError"
  by (simp_all add: get_datanode_data_def get_workgraph_data_def list_parameters_def
      Query_int_def Query_str_def read_datanode_data_def read_workgraph_data_def
      datanode_filters_def workgraph_filters_def datanode_col_map_def workgraph_col_map_def
      qb_count_unpaged qb_all_offset_overflow attribute_path_samples int64_def)

lemma workgraph_row_without_state_raises:
  "get_workgraph_data
       \<lparr>json_loads = (\<lambda>s. Inl JSONDecodeError), str_of = (\<lambda>v. ''?''),
        int_of_str = (\<lambda>s. None), isdigit = (\<lambda>s. False), title = (\<lambda>s. s)\<rparr>
       (\<lambda>s. Inr (PDict [])) (\<lambda>t :: nat. ''now'')
       \<lparr>rows = [\<lparr>w_id = 3, w_uuid = ''c'', w_ctime = 0, w_process_label = PNone,
                 w_process_state = None, w_process_status = PNone,
                 w_exit_status = PNone, w_exit_message = PNone, w_label = ''z'',
                 w_description = ''''\<rparr>],
        matches = (\<lambda>f r. True), order_rows = (\<lambda>c d rs. rs)\<rparr>
       \<lparr>raw_skip = None, raw_limit = None, raw_sortField = None,
        raw_sortOrder = None, raw_filterModel = None\<rparr>
     = Inl AttributeError"
  by (simp add: get_workgraph_data_def list_parameters_def Query_int_def Query_str_def
      read_workgraph_data_def workgraph_filters_def workgraph_col_map_def
      qb_count_unpaged qb_all_page attribute_path_samples int64_def workgraph_item_def)

text \<open>
  A request each endpoint answers: the filters decide which rows count, the page is cut
  from the ordered rows, and every row is projected to the columns of the response.
\<close>

lemma list_endpoints_page_example:
  \<open>get_datanode_data
       \<lparr>json_loads = (\<lambda>s. if s = ''{"items": [{"field": "label", "value": "x"}]}''
                           then Inr (PDict [(''items'',
                                  PList [PDict [(''field'', PStr ''label''),
                                                (''value'', PStr ''x'')]])])
                           else Inl JSONDecodeError),
        str_of = (\<lambda>v. ''?''), int_of_str = (\<lambda>s. None), isdigit = (\<lambda>s. False),
        title = (\<lambda>s. s)\<rparr>
       (\<lambda>t :: nat. ''now'')
       \<lparr>rows = [\<lparr>d_id = 1, d_uuid = ''a'', d_ctime = 0, d_node_type = ''data.core.int.Int.'',
                  d_label = ''x'', d_description = ''''\<rparr>,
                \<lparr>d_id = 2, d_uuid = ''b'', d_ctime = 0, d_node_type = ''data.core.int.Int.'',
                  d_label = ''y'', d_description = ''''\<rparr>,
                \<lparr>d_id = 3, d_uuid = ''c'', d_ctime = 0, d_node_type = ''data.core.int.Int.'',
                  d_label = ''x'', d_description = ''''\<rparr>],
        matches = (\<lambda>f r. f = PDict [(''label'', PDict [(''like'', PStr ''%x%'')])]
                          \<and> d_label r = ''x''),
        order_rows = (\<lambda>c d rs. if d = ''desc'' then rev rs else rs)\<rparr>
       \<lparr>raw_skip = Some 1, raw_limit = Some 1, raw_sortField = None, raw_sortOrder = None,
        raw_filterModel = Some ''{"items": [{"field": "label", "value": "x"}]}''\<rparr>
     = Inr \<lparr>total = 2,
            data = [[(''pk'', PInt 1), (''uuid'', PStr ''a''), (''ctime'', PStr ''now''),
                     (''node_type'', PStr ''data.core.int.Int.''), (''label'', PStr ''x''),
                     (''description'', PStr '''')]]\<rparr>\<close>
  \<open>get_workgraph_data
       \<lparr>json_loads = (\<lambda>s. Inl JSONDecodeError), str_of = (\<lambda>v. ''?''),
        int_of_str = (\<lambda>s. None), isdigit = (\<lambda>s. False),
        title = (\<lambda>s. if s = ''finished'' then ''Finished'' else s)\<rparr>
       (\<lambda>s. Inr (PDict [(''label'', PDict [(''like'', PStr ''%z%'')])]))
       (\<lambda>t :: nat. ''now'')
       \<lparr>rows = [\<lparr>w_id = 3, w_uuid = ''c'', w_ctime = 0, w_process_label = PStr ''WorkGraph'',
                  w_process_state = Some ''finished'', w_process_status = PNone,
                  w_exit_status = PInt 0, w_exit_message = PNone, w_label = ''z'',
                  w_description = ''''\<rparr>,
                \<lparr>w_id = 4, w_uuid = ''d'', w_ctime = 0, w_process_label = PStr ''WorkGraph'',
                  w_process_state = Some ''finished'', w_process_status = PNone,
                  w_exit_status = PInt 0, w_exit_message = PNone, w_label = ''q'',
                  w_description = ''''\<rparr>],
        matches = (\<lambda>f r. f = PDict [(''label'', PDict [(''like'', PStr ''%z%'')])]
                          \<and> w_label r = ''z''),
        order_rows = (\<lambda>c d rs. if d = ''desc'' then rev rs else rs)\<rparr>
       \<lparr>raw_skip = None, raw_limit = None, raw_sortField = Some ''label'',
        raw_sortOrder = Some ''asc'', raw_filterModel = Some ''{"items": []}''\<rparr>
     = Inr \<lparr>total = 1,
            data = [[(''pk'', PInt 3), (''uuid'', PStr ''c''), (''ctime'', PStr ''now''),
                     (''process_label'', PStr ''WorkGraph''), (''state'', PStr ''Finished''),
                     (''status'', PNone), (''exit_status'', PInt 0), (''exit_message'', PNone),
                     (''label'', PStr ''z''), (''description'', PStr '''')]]\<rparr>\<close>
  by (simp_all add: get_datanode_data_def get_workgraph_data_def list_parameters_def
      Query_int_def Query_str_def datanode_sort_pattern_def workgraph_sort_pattern_def
      read_datanode_data_def read_workgraph_data_def datanode_filters_def workgraph_filters_def
      translate_item_def field_map_def like_filter_def format_value_def
      datanode_col_map_def workgraph_col_map_def qb_count_def qb_all_def qb_run_def
      qb_order_by_def qb_append_def qb_set_limit_def qb_set_offset_def QueryBuilder_def
      attribute_path_def int64_def datanode_item_def workgraph_item_def Let_def)

section \<open>The filter model of the data nodes\<close>

lemma translate_items_append:
  "translate_items py (xs @ ys) fs = bind_exc (translate_items py xs fs) (translate_items py ys)"
  by (induction xs arbitrary: fs) (auto simp: bind_exc_def split: sum.splits)

lemma translate_items_skip:
  assumes "\<And>fs. translate_item py item fs = Inr fs"
  shows "translate_items py (xs @ item # ys) fs = translate_items py (xs @ ys) fs"
  by (simp add: translate_items_append assms bind_exc_def split: sum.splits)

lemma translate_item_falsy:
  assumes "dict_get item ''field'' PNone = Inr fld" "dict_get item ''value'' PNone = Inr v"
    and "\<not> truthy v"
  shows "translate_item py item fs = Inr fs"
  using assms by (cases item) (simp_all add: translate_item_def)

lemma translate_item_unknown_field:
  assumes "dict_get item ''field'' PNone = Inr fld" "dict_get item ''value'' PNone = Inr v"
    and "\<forall>xs. fld \<noteq> PList xs" "\<forall>kvs. fld \<noteq> PDict kvs"
    and "\<forall>s. fld = PStr s \<longrightarrow>
           s \<notin> {''pk'', ''ctime'', ''node_type'', ''label'', ''description''}"
  shows "translate_item py item fs = Inr fs"
proof -
  have "lookup_hashed field_map fld = Inr None"
    using assms(3-5) by (cases fld) (auto simp: field_map_def)
  then show ?thesis
    using assms(1,2) by (cases item) (simp_all add: translate_item_def)
qed

lemma translate_item_bad_pk:
  assumes "dict_get item ''field'' PNone = Inr (PStr ''pk'')"
    "dict_get item ''value'' PNone = Inr (PStr s)" "int_of_str py s = None"
  shows "translate_item py item fs = Inr fs"
  using assms by (cases item) (simp_all add: translate_item_def field_map_def)

lemma translate_item_like:
  assumes "dict_get item ''field'' PNone = Inr (PStr col)"
    and "col \<in> {''ctime'', ''node_type'', ''label'', ''description''}"
    and "dict_get item ''value'' PNone = Inr v" "truthy v"
    and "dict_get item ''operator'' (PStr ''contains'') = Inr (PStr op)"
    and "op \<in> {''contains'', ''equals'', ''is''}"
  shows "translate_item py item fs = Inr (AList.update col (like_filter py v) fs)"
proof -
  have "lookup_hashed field_map (PStr col) = Inr (Some col) \<and> col \<noteq> ''id''"
    using assms(2) by (auto simp: field_map_def)
  then show ?thesis
    using assms(1,3-6) by (cases item) (auto simp: translate_item_def)
qed

text \<open>
  C8 (as amended). GET /api/datanode-data: an empty filterModel is treated as an absent
  one; a filterModel that is not empty and on which \<open>json.loads\<close> raises
  JSONDecodeError gives HTTP 400 with detail "Invalid filterModel JSON". A filter item (a JSON
  object) is ignored, and the filters are the same as without it, when its value is
  falsy, or when its field is hashable (not a list or an object) and is not one of pk,
  ctime, node_type, label, description, or when its field is pk and its value is a string
  that \<open>int\<close> rejects. An item for one of the four string columns with a truthy value and
  operator contains, equals or is (contains is the default) sets the column's filter to
  \<open>{"like": "%" + str(value) + "%"}\<close>, whichever of the three operators it has.
\<close>

theorem datanode_filter_translation:
  "read_datanode_data py time_ago db (q\<lparr>filterModel := Some ''''\<rparr>)
     = read_datanode_data py time_ago db (q\<lparr>filterModel := None\<rparr>)
   \<and> (body \<noteq> [] \<and> json_loads py body = Inl JSONDecodeError \<longrightarrow>
      read_datanode_data py time_ago db (q\<lparr>filterModel := Some body\<rparr>)
        = Inl (HTTPException 400 ''Invalid filterModel JSON''))
   \<and> (dict_get item ''field'' PNone = Inr fld \<and> dict_get item ''value'' PNone = Inr v
       \<and> (\<not> truthy v
          \<or> ((\<forall>xs. fld \<noteq> PList xs) \<and> (\<forall>kvs. fld \<noteq> PDict kvs)
              \<and> (\<forall>s. fld = PStr s \<longrightarrow>
                    s \<notin> {''pk'', ''ctime'', ''node_type'', ''label'', ''description''}))
          \<or> (fld = PStr ''pk'' \<and> (\<exists>s. v = PStr s \<and> int_of_str py s = None))) \<longrightarrow>
      translate_item py item filters = Inr filters
      \<and> translate_items py (before @ item # after) filters
          = translate_items py (before @ after) filters)
   \<and> (dict_get item ''field'' PNone = Inr (PStr col)
       \<and> col \<in> {''ctime'', ''node_type'', ''label'', ''description''}
       \<and> dict_get item ''value'' PNone = Inr v \<and> truthy v
       \<and> dict_get item ''operator'' (PStr ''contains'') = Inr (PStr op)
       \<and> op \<in> {''contains'', ''equals'', ''is''} \<longrightarrow>
      translate_item py item filters
        = Inr (AList.update col (PDict [(''like'', PStr (''%'' @ format_value py v @ ''%''))])
                 filters))"
proof -
  have p0: "read_datanode_data py time_ago db (q\<lparr>filterModel := Some ''''\<rparr>)
     = read_datanode_data py time_ago db (q\<lparr>filterModel := None\<rparr>)"
    by (simp add: read_datanode_data_def datanode_filters_def split: option.splits)
  have p1: "body \<noteq> [] \<and> json_loads py body = Inl JSONDecodeError \<longrightarrow>
      read_datanode_data py time_ago db (q\<lparr>filterModel := Some body\<rparr>)
        = Inl (HTTPException 400 ''Invalid filterModel JSON'')"
    by (simp add: read_datanode_data_def datanode_filters_def)
  have p2: "dict_get item ''field'' PNone = Inr fld \<and> dict_get item ''value'' PNone = Inr v
       \<and> (\<not> truthy v
          \<or> ((\<forall>xs. fld \<noteq> PList xs) \<and> (\<forall>kvs. fld \<noteq> PDict kvs)
              \<and> (\<forall>s. fld = PStr s \<longrightarrow>
                    s \<notin> {''pk'', ''ctime'', ''node_type'', ''label'', ''description''}))
          \<or> (fld = PStr ''pk'' \<and> (\<exists>s. v = PStr s \<and> int_of_str py s = None))) \<longrightarrow>
      translate_item py item filters = Inr filters
      \<and> translate_items py (before @ item # after) filters
          = translate_items py (before @ after) filters"
  proof
    assume a: "dict_get item ''field'' PNone = Inr fld \<and> dict_get item ''value'' PNone = Inr v
       \<and> (\<not> truthy v
          \<or> ((\<forall>xs. fld \<noteq> PList xs) \<and> (\<forall>kvs. fld \<noteq> PDict kvs)
              \<and> (\<forall>s. fld = PStr s \<longrightarrow>
                    s \<notin> {''pk'', ''ctime'', ''node_type'', ''label'', ''description''}))
          \<or> (fld = PStr ''pk'' \<and> (\<exists>s. v = PStr s \<and> int_of_str py s = None)))"
    have skip: "translate_item py item fs = Inr fs" for fs
      using a translate_item_falsy [of item fld v py fs]
        translate_item_unknown_field [of item fld v py fs]
        translate_item_bad_pk [of item _ py fs]
      by blast
    show "translate_item py item filters = Inr filters
      \<and> translate_items py (before @ item # after) filters
          = translate_items py (before @ after) filters"
      using skip translate_items_skip [of py item before after filters] by simp
  qed
  have p3: "dict_get item ''field'' PNone = Inr (PStr col)
       \<and> col \<in> {''ctime'', ''node_type'', ''label'', ''description''}
       \<and> dict_get item ''value'' PNone = Inr v \<and> truthy v
       \<and> dict_get item ''operator'' (PStr ''contains'') = Inr (PStr op)
       \<and> op \<in> {''contains'', ''equals'', ''is''} \<longrightarrow>
      translate_item py item filters
        = Inr (AList.update col (PDict [(''like'', PStr (''%'' @ format_value py v @ ''%''))])
                 filters)"
    using translate_item_like [of item col v op py filters]
    by (simp add: like_filter_def)
  show ?thesis by (rule conjI [OF p0 conjI [OF p1 conjI [OF p2 p3]]])
qed

theorem datanode_filter_translation_witness:
  "read_datanode_data \<lparr>json_loads = (\<lambda>s. Inl JSONDecodeError), str_of = (\<lambda>v. ''?''), int_of_str = (\<lambda>s. None),
            isdigit = (\<lambda>s. False), title = (\<lambda>s. s)\<rparr> (\<lambda>t :: nat. ''now'')
       \<lparr>rows = [], matches = (\<lambda>f r. True), order_rows = (\<lambda>c d rs. rs)\<rparr>
       \<lparr>skip = 0, limit = 15, sortField = ''pk'', sortOrder = ''desc'',
        filterModel = Some ''{''\<rparr>
     = Inl (HTTPException 400 ''Invalid filterModel JSON'')
   \<and> translate_items \<lparr>json_loads = (\<lambda>s. Inl JSONDecodeError), str_of = (\<lambda>v. ''?''), int_of_str = (\<lambda>s. None),
            isdigit = (\<lambda>s. False), title = (\<lambda>s. s)\<rparr>
        [PDict [(''field'', PStr ''uuid''), (''operator'', PStr ''contains''),
                (''value'', PStr ''abc'')]] []
      = translate_items \<lparr>json_loads = (\<lambda>s. Inl JSONDecodeError), str_of = (\<lambda>v. ''?''), int_of_str = (\<lambda>s. None),
            isdigit = (\<lambda>s. False), title = (\<lambda>s. s)\<rparr> [] []
   \<and> translate_item \<lparr>json_loads = (\<lambda>s. Inl JSONDecodeError), str_of = (\<lambda>v. ''?''), int_of_str = (\<lambda>s. None),
            isdigit = (\<lambda>s. False), title = (\<lambda>s. s)\<rparr>
        (PDict [(''field'', PStr ''pk''), (''operator'', PStr ''equals''),
                (''value'', PStr ''12a'')]) []
      = Inr []
   \<and> translate_item \<lparr>json_loads = (\<lambda>s. Inl JSONDecodeError), str_of = (\<lambda>v. ''?''), int_of_str = (\<lambda>s. None),
            isdigit = (\<lambda>s. False), title = (\<lambda>s. s)\<rparr>
        (PDict [(''field'', PStr ''label''), (''operator'', PStr ''is''),
                (''value'', PStr ''relax'')]) []
      = Inr [(''label'', PDict [(''like'', PStr ''%relax%'')])]"
proof -
  have a: "read_datanode_data \<lparr>json_loads = (\<lambda>s. Inl JSONDecodeError), str_of = (\<lambda>v. ''?''), int_of_str = (\<lambda>s. None),
            isdigit = (\<lambda>s. False), title = (\<lambda>s. s)\<rparr> (\<lambda>t :: nat. ''now'')
       \<lparr>rows = [], matches = (\<lambda>f r. True), order_rows = (\<lambda>c d rs. rs)\<rparr>
       (\<lparr>skip = 0, limit = 15, sortField = ''pk'', sortOrder = ''desc'',
        filterModel = None\<rparr>\<lparr>filterModel := Some ''{''\<rparr>)
     = Inl (HTTPException 400 ''Invalid filterModel JSON'')"
    by (rule datanode_filter_translation [THEN conjunct2, THEN conjunct1, THEN mp]) simp
  have b: "translate_items \<lparr>json_loads = (\<lambda>s. Inl JSONDecodeError), str_of = (\<lambda>v. ''?''), int_of_str = (\<lambda>s. None),
            isdigit = (\<lambda>s. False), title = (\<lambda>s. s)\<rparr>
        ([] @ PDict [(''field'', PStr ''uuid''), (''operator'', PStr ''contains''),
                (''value'', PStr ''abc'')] # []) []
      = translate_items \<lparr>json_loads = (\<lambda>s. Inl JSONDecodeError), str_of = (\<lambda>v. ''?''), int_of_str = (\<lambda>s. None),
            isdigit = (\<lambda>s. False), title = (\<lambda>s. s)\<rparr> ([] @ []) []"
    by (rule datanode_filter_translation
          [where fld = "PStr ''uuid''" and v = "PStr ''abc''",
           THEN conjunct2, THEN conjunct2, THEN conjunct1, THEN mp, THEN conjunct2]) simp
  have c: "translate_item \<lparr>json_loads = (\<lambda>s. Inl JSONDecodeError), str_of = (\<lambda>v. ''?''), int_of_str = (\<lambda>s. None),
            isdigit = (\<lambda>s. False), title = (\<lambda>s. s)\<rparr>
        (PDict [(''field'', PStr ''pk''), (''operator'', PStr ''equals''),
                (''value'', PStr ''12a'')]) []
      = Inr []"
    by (rule datanode_filter_translation
          [where fld = "PStr ''pk''" and v = "PStr ''12a''" and before = "[]" and after = "[]",
           THEN conjunct2, THEN conjunct2, THEN conjunct1, THEN mp, THEN conjunct1]) simp
  have d: "translate_item \<lparr>json_loads = (\<lambda>s. Inl JSONDecodeError), str_of = (\<lambda>v. ''?''), int_of_str = (\<lambda>s. None),
            isdigit = (\<lambda>s. False), title = (\<lambda>s. s)\<rparr>
        (PDict [(''field'', PStr ''label''), (''operator'', PStr ''is''),
                (''value'', PStr ''relax'')]) []
      = Inr (AList.update ''label''
               (PDict [(''like'', PStr (''%'' @ format_value \<lparr>json_loads = (\<lambda>s. Inl JSONDecodeError), str_of = (\<lambda>v. ''?''), int_of_str = (\<lambda>s. None),
            isdigit = (\<lambda>s. False), title = (\<lambda>s. s)\<rparr> (PStr ''relax'') @ ''%''))]) [])"
    by (rule datanode_filter_translation
          [where op = "''is''", THEN conjunct2, THEN conjunct2, THEN conjunct2, THEN mp]) simp
  show ?thesis
    using a b c d by (simp add: format_value_def)
qed

text \<open>
  C8 as stated does not hold: an empty filterModel is present and is not valid JSON
  (\<open>json.loads\<close> raises JSONDecodeError on it), but the handler treats it as absent
  (\<open>if filterModel:\<close>) and answers with the page.
\<close>

theorem filterModel_empty_counterexample:
  "json_loads
       \<lparr>json_loads = (\<lambda>s. if s = ''{}'' then Inr (PDict []) else Inl JSONDecodeError),
        str_of = (\<lambda>v. ''?''), int_of_str = (\<lambda>s. None), isdigit = (\<lambda>s. False),
        title = (\<lambda>s. s)\<rparr> '''' = Inl JSONDecodeError
   \<and> read_datanode_data
        \<lparr>json_loads = (\<lambda>s. if s = ''{}'' then Inr (PDict []) else Inl JSONDecodeError),
         str_of = (\<lambda>v. ''?''), int_of_str = (\<lambda>s. None), isdigit = (\<lambda>s. False),
         title = (\<lambda>s. s)\<rparr>
        (\<lambda>t :: nat. ''now'')
        \<lparr>rows = [\<lparr>d_id = 1, d_uuid = ''a'', d_ctime = 0, d_node_type = ''data.core.int.Int.'',
                  d_label = ''x'', d_description = ''''\<rparr>],
         matches = (\<lambda>f r. True), order_rows = (\<lambda>c d rs. rs)\<rparr>
        \<lparr>skip = 0, limit = 15, sortField = ''pk'', sortOrder = ''desc'',
         filterModel = Some ''''\<rparr>
      = Inr \<lparr>total = 1,
             data = [[(''pk'', PInt 1), (''uuid'', PStr ''a''), (''ctime'', PStr ''now''),
                      (''node_type'', PStr ''data.core.int.Int.''), (''label'', PStr ''x''),
                      (''description'', PStr '''')]]\<rparr>"
  by (simp add: read_datanode_data_def datanode_filters_def datanode_col_map_def Let_def
      qb_all_page qb_count_unpaged attribute_path_samples int64_def datanode_item_def)

text \<open>
  Only JSONDecodeError is caught: any other exception of \<open>json.loads\<close> (a
  RecursionError for a deeply nested text) leaves the handler as it is.
\<close>

lemma datanode_filters_other_exception:
  "body \<noteq> [] \<Longrightarrow> json_loads py body = Inl e \<Longrightarrow> e \<noteq> JSONDecodeError \<Longrightarrow>
     datanode_filters py (Some body) = Inl e"
  by (cases e) (simp_all add: datanode_filters_def)

text \<open>
  Outside the amended statement: \<open>int\<close> of a list raises TypeError, which
  \<open>except ValueError\<close> does not catch; an unhashable field raises TypeError at
  \<open>field not in field_map\<close>; an item that is not an object has no \<open>get\<close>.
\<close>

lemma translate_item_raises:
  "translate_item \<lparr>json_loads = (\<lambda>s. Inl JSONDecodeError), str_of = (\<lambda>v. ''?''), int_of_str = (\<lambda>s. None),
            isdigit = (\<lambda>s. False), title = (\<lambda>s. s)\<rparr>
     (PDict [(''field'', PStr ''pk''), (''operator'', PStr ''isAnyOf''),
             (''value'', PList [PStr ''1'', PStr ''2''])]) [] = Inl TypeError
   \<and> translate_item \<lparr>json_loads = (\<lambda>s. Inl JSONDecodeError), str_of = (\<lambda>v. ''?''), int_of_str = (\<lambda>s. None),
            isdigit = (\<lambda>s. False), title = (\<lambda>s. s)\<rparr>
     (PDict [(''field'', PList [PStr ''label'']), (''value'', PStr ''x'')]) [] = Inl TypeError
   \<and> translate_item \<lparr>json_loads = (\<lambda>s. Inl JSONDecodeError), str_of = (\<lambda>v. ''?''), int_of_str = (\<lambda>s. None),
            isdigit = (\<lambda>s. False), title = (\<lambda>s. s)\<rparr> (PStr ''label'') [] = Inl AttributeError"
  by (simp add: translate_item_def field_map_def)

section \<open>Nested sub-workgraphs\<close>

lemma descend_subgraph: "descend g segs = Inr g' \<longleftrightarrow> subgraph_at g segs g'"
proof
  show "descend g segs = Inr g' \<Longrightarrow> subgraph_at g segs g'"
  proof (induction segs arbitrary: g)
    case Nil
    then show ?case by (simp add: subgraph_at.here)
  next
    case (Cons s segs)
    from Cons.prems obtain ts t ex inner where
      "getitem g ''tasks'' = Inr ts" "getitem ts s = Inr t" "getitem t ''executor'' = Inr ex"
      "getitem ex ''graph_data'' = Inr inner" "descend inner segs = Inr g'"
      by (auto simp: bind_exc_Inr)
    then show ?case using Cons.IH by (blast intro: subgraph_at.below)
  qed
next
  show "subgraph_at g segs g' \<Longrightarrow> descend g segs = Inr g'"
    by (induction rule: subgraph_at.induct) simp_all
qed

lemma descend_append:
  "descend g (pre @ post) = bind_exc (descend g pre) (\<lambda>g'. descend g' post)"
  by (induction pre arbitrary: g) (auto simp: bind_exc_def split: sum.splits)

lemma descend_missing:
  assumes "subgraph_at g pre gk" "getitem gk ''tasks'' = Inr (PDict ts)" "map_of ts s = None"
  shows "descend g (pre @ s # post) = Inl (KeyError s)"
  using assms by (simp add: descend_append descend_subgraph [THEN iffD2])

lemma with_empty_summary_dict:
  "with_empty_summary label ident segments (PDict c) =
     Inr (PDict (AList.update ''processes_info'' (PDict [])
           (AList.update ''parent_workgraphs''
              (PList (PList [label, PInt ident] # map PStr segments))
           (AList.update ''summary''
              (PDict [(''table'', PList []), (''inputs'', PDict []), (''outputs'', PDict [])])
              c))))"
  by (simp add: with_empty_summary_def)

lemma with_empty_summary_not_KeyError:
  "with_empty_summary label ident segments content \<noteq> Inl (KeyError k)"
  by (cases content) (simp_all add: with_empty_summary_def)

lemma upper_samples: "upper ''WorkGraph'' = ''WORKGRAPH''" "upper ''Map'' = ''MAP''"
  by (simp_all add: upper_def upper_char_def)

lemma split_slash_samples:
  "split_slash ''sub/inner'' = [''sub'', ''inner'']" "split_slash ''sub/nope'' = [''sub'', ''nope'']"
  "split_slash ''map1'' = [''map1'']"
  by simp_all

text \<open>
  C2. GET /api/workgraph/{id}/{path} when the first path segment names a task whose
  node_type, in upper case, is WORKGRAPH (and that has an executor with graph data):
  the handler goes down one nesting level per remaining segment, taking
  \<open>graph_data["tasks"][segment]["executor"]["graph_data"]\<close> for each in order
  (\<open>subgraph_at\<close>), and answers with the short-JSON view of the graph it reaches, to
  which it adds an empty summary, the parents and an empty process table (or with
  nothing when there is no view). A segment that is missing among the tasks at its depth
  gives HTTP 404.
\<close>

theorem read_sub_workgraph_nested:
  assumes node: "load_node ident = Inr node"
    and path: "split_slash path = head_segment # rest"
    and tasks: "getitem (workgraph_data node) ''tasks'' = Inr all_tasks"
    and task: "getitem all_tasks head_segment = Inr raw"
    and ndata: "deserialize_unsafe raw = Inr ndata"
    and type: "node_type_upper ndata = Inr ''WORKGRAPH''"
    and executor: "dict_get (task_executors node) head_segment PNone = Inr executor"
    and graph: "getitem executor ''graph_data'' = Inr top_graph"
  shows
  "(subgraph_at top_graph rest g \<and> workgraph_to_short_json g = Inr (PDict view) \<longrightarrow>
      (\<exists>content.
         read_sub_workgraph str_exc load_node workgraph_data task_executors task_map_info
           process_label deserialize_unsafe workgraph_to_short_json ident path
           = Inr (PDict content)
         \<and> (\<forall>k. k \<notin> {''summary'', ''parent_workgraphs'', ''processes_info''} \<longrightarrow>
               map_of content k = map_of view k)
         \<and> map_of content ''summary''
             = Some (PDict [(''table'', PList []), (''inputs'', PDict []), (''outputs'', PDict [])])
         \<and> map_of content ''parent_workgraphs''
             = Some (PList (PList [process_label node, PInt ident] # map PStr (head_segment # rest)))
         \<and> map_of content ''processes_info'' = Some (PDict [])))
   \<and> (subgraph_at top_graph rest g \<and> workgraph_to_short_json g = Inr PNone \<longrightarrow>
         read_sub_workgraph str_exc load_node workgraph_data task_executors task_map_info
           process_label deserialize_unsafe workgraph_to_short_json ident path = Inr PNone)
   \<and> (rest = pre @ missing # post \<and> subgraph_at top_graph pre gk
       \<and> getitem gk ''tasks'' = Inr (PDict tasks_k) \<and> map_of tasks_k missing = None \<longrightarrow>
         read_sub_workgraph str_exc load_node workgraph_data task_executors task_map_info
           process_label deserialize_unsafe workgraph_to_short_json ident path
           = Inl (HTTPException 404
                   (''Workgraph '' @ str_int ident @ ''/'' @ path @ '' not found, ''
                      @ str_exc (KeyError missing))))"
proof -
  have body: "read_sub_workgraph_try load_node workgraph_data task_executors task_map_info
           process_label deserialize_unsafe workgraph_to_short_json ident path
      = bind_exc (descend top_graph rest) (\<lambda>graph_data.
          bind_exc (workgraph_to_short_json graph_data)
            (with_empty_summary (process_label node) ident (head_segment # rest)))"
    by (simp add: read_sub_workgraph_try_def node path tasks task ndata type executor graph
        workgraph_branch_def)
  have p1: "subgraph_at top_graph rest g \<and> workgraph_to_short_json g = Inr (PDict view) \<longrightarrow>
      (\<exists>content.
         read_sub_workgraph str_exc load_node workgraph_data task_executors task_map_info
           process_label deserialize_unsafe workgraph_to_short_json ident path
           = Inr (PDict content)
         \<and> (\<forall>k. k \<notin> {''summary'', ''parent_workgraphs'', ''processes_info''} \<longrightarrow>
               map_of content k = map_of view k)
         \<and> map_of content ''summary''
             = Some (PDict [(''table'', PList []), (''inputs'', PDict []), (''outputs'', PDict [])])
         \<and> map_of content ''parent_workgraphs''
             = Some (PList (PList [process_label node, PInt ident] # map PStr (head_segment # rest)))
         \<and> map_of content ''processes_info'' = Some (PDict []))"
  proof
    assume a: "subgraph_at top_graph rest g \<and> workgraph_to_short_json g = Inr (PDict view)"
    then have "descend top_graph rest = Inr g" by (simp add: descend_subgraph)
    with a body show "\<exists>content.
         read_sub_workgraph str_exc load_node workgraph_data task_executors task_map_info
           process_label deserialize_unsafe workgraph_to_short_json ident path
           = Inr (PDict content)
         \<and> (\<forall>k. k \<notin> {''summary'', ''parent_workgraphs'', ''processes_info''} \<longrightarrow>
               map_of content k = map_of view k)
         \<and> map_of content ''summary''
             = Some (PDict [(''table'', PList []), (''inputs'', PDict []), (''outputs'', PDict [])])
         \<and> map_of content ''parent_workgraphs''
             = Some (PList (PList [process_label node, PInt ident] # map PStr (head_segment # rest)))
         \<and> map_of content ''processes_info'' = Some (PDict [])"
      by (simp add: read_sub_workgraph_def with_empty_summary_dict update_conv')
  qed
  have p2: "subgraph_at top_graph rest g \<and> workgraph_to_short_json g = Inr PNone \<longrightarrow>
         read_sub_workgraph str_exc load_node workgraph_data task_executors task_map_info
           process_label deserialize_unsafe workgraph_to_short_json ident path = Inr PNone"
  proof
    assume a: "subgraph_at top_graph rest g \<and> workgraph_to_short_json g = Inr PNone"
    then have "descend top_graph rest = Inr g" by (simp add: descend_subgraph)
    with a body show "read_sub_workgraph str_exc load_node workgraph_data task_executors
           task_map_info process_label deserialize_unsafe workgraph_to_short_json ident path
           = Inr PNone"
      by (simp add: read_sub_workgraph_def with_empty_summary_def)
  qed
  have p3: "rest = pre @ missing # post \<and> subgraph_at top_graph pre gk
       \<and> getitem gk ''tasks'' = Inr (PDict tasks_k) \<and> map_of tasks_k missing = None \<longrightarrow>
         read_sub_workgraph str_exc load_node workgraph_data task_executors task_map_info
           process_label deserialize_unsafe workgraph_to_short_json ident path
           = Inl (HTTPException 404
                   (''Workgraph '' @ str_int ident @ ''/'' @ path @ '' not found, ''
                      @ str_exc (KeyError missing)))"
  proof
    assume a: "rest = pre @ missing # post \<and> subgraph_at top_graph pre gk
       \<and> getitem gk ''tasks'' = Inr (PDict tasks_k) \<and> map_of tasks_k missing = None"
    then have "descend top_graph rest = Inl (KeyError missing)"
      using descend_missing [of top_graph pre gk tasks_k missing post] by simp
    with body show "read_sub_workgraph str_exc load_node workgraph_data task_executors
           task_map_info process_label deserialize_unsafe workgraph_to_short_json ident path
           = Inl (HTTPException 404
                   (''Workgraph '' @ str_int ident @ ''/'' @ path @ '' not found, ''
                      @ str_exc (KeyError missing)))"
      by (simp add: read_sub_workgraph_def)
  qed
  show ?thesis by (rule conjI [OF p1 conjI [OF p2 p3]])
qed

theorem read_sub_workgraph_nested_witness:
  "(\<exists>content.
      read_sub_workgraph (\<lambda>e :: exc. ''key'') (\<lambda>i :: int. (Inr () :: exc + unit)) (\<lambda>n :: unit. PDict [(''tasks'', PDict [(''sub'', PDict [(''metadata'', PDict [(''node_type'', PStr ''WorkGraph'')])])])]) (\<lambda>n :: unit. PDict [(''sub'', PDict [(''graph_data'', PDict [(''tasks'', PDict [(''inner'', PDict [(''executor'', PDict [(''graph_data'', PDict [(''name'', PStr ''inner'')])])])])])])]) (\<lambda>n :: unit. [] :: (string \<times> map_info) list) (\<lambda>n :: unit. PStr ''WorkGraph'') (\<lambda>v :: pyval. (Inr v :: exc + pyval)) (\<lambda>g :: pyval. (Inr g :: exc + pyval)) 7 ''sub/inner''
        = Inr (PDict content)
      \<and> (\<forall>k. k \<notin> {''summary'', ''parent_workgraphs'', ''processes_info''} \<longrightarrow>
            map_of content k = map_of [(''name'', PStr ''inner'')] k)
      \<and> map_of content ''summary''
          = Some (PDict [(''table'', PList []), (''inputs'', PDict []), (''outputs'', PDict [])])
      \<and> map_of content ''parent_workgraphs''
          = Some (PList (PList [PStr ''WorkGraph'', PInt 7] # map PStr (''sub'' # [''inner''])))
      \<and> map_of content ''processes_info'' = Some (PDict []))
   \<and> read_sub_workgraph (\<lambda>e :: exc. ''key'') (\<lambda>i :: int. (Inr () :: exc + unit)) (\<lambda>n :: unit. PDict [(''tasks'', PDict [(''sub'', PDict [(''metadata'', PDict [(''node_type'', PStr ''WorkGraph'')])])])]) (\<lambda>n :: unit. PDict [(''sub'', PDict [(''graph_data'', PDict [(''tasks'', PDict [(''inner'', PDict [(''executor'', PDict [(''graph_data'', PDict [(''name'', PStr ''inner'')])])])])])])]) (\<lambda>n :: unit. [] :: (string \<times> map_info) list) (\<lambda>n :: unit. PStr ''WorkGraph'') (\<lambda>v :: pyval. (Inr v :: exc + pyval)) (\<lambda>g :: pyval. (Inr g :: exc + pyval)) 7 ''sub/nope''
       = Inl (HTTPException 404
               (''Workgraph '' @ str_int 7 @ ''/'' @ ''sub/nope'' @ '' not found, '' @ ''key''))"
proof -
  note ev = node_type_upper_def upper_def upper_char_def
  have a: "\<exists>content.
      read_sub_workgraph (\<lambda>e :: exc. ''key'') (\<lambda>i :: int. (Inr () :: exc + unit)) (\<lambda>n :: unit. PDict [(''tasks'', PDict [(''sub'', PDict [(''metadata'', PDict [(''node_type'', PStr ''WorkGraph'')])])])]) (\<lambda>n :: unit. PDict [(''sub'', PDict [(''graph_data'', PDict [(''tasks'', PDict [(''inner'', PDict [(''executor'', PDict [(''graph_data'', PDict [(''name'', PStr ''inner'')])])])])])])]) (\<lambda>n :: unit. [] :: (string \<times> map_info) list) (\<lambda>n :: unit. PStr ''WorkGraph'') (\<lambda>v :: pyval. (Inr v :: exc + pyval)) (\<lambda>g :: pyval. (Inr g :: exc + pyval)) 7 ''sub/inner''
        = Inr (PDict content)
      \<and> (\<forall>k. k \<notin> {''summary'', ''parent_workgraphs'', ''processes_info''} \<longrightarrow>
            map_of content k = map_of [(''name'', PStr ''inner'')] k)
      \<and> map_of content ''summary''
          = Some (PDict [(''table'', PList []), (''inputs'', PDict []), (''outputs'', PDict [])])
      \<and> map_of content ''parent_workgraphs''
          = Some (PList (PList [PStr ''WorkGraph'', PInt 7] # map PStr (''sub'' # [''inner''])))
      \<and> map_of content ''processes_info'' = Some (PDict [])"
    by (rule read_sub_workgraph_nested
          [where load_node = "(\<lambda>i :: int. (Inr () :: exc + unit))" and node = "()" and workgraph_data = "(\<lambda>n :: unit. PDict [(''tasks'', PDict [(''sub'', PDict [(''metadata'', PDict [(''node_type'', PStr ''WorkGraph'')])])])])"
             and task_executors = "(\<lambda>n :: unit. PDict [(''sub'', PDict [(''graph_data'', PDict [(''tasks'', PDict [(''inner'', PDict [(''executor'', PDict [(''graph_data'', PDict [(''name'', PStr ''inner'')])])])])])])])" and process_label = "(\<lambda>n :: unit. PStr ''WorkGraph'')"
             and deserialize_unsafe = "(\<lambda>v :: pyval. (Inr v :: exc + pyval))" and workgraph_to_short_json = "(\<lambda>g :: pyval. (Inr g :: exc + pyval))"
             and all_tasks = "PDict [(''sub'', PDict [(''metadata'', PDict [(''node_type'', PStr ''WorkGraph'')])])]" and raw = "PDict [(''metadata'', PDict [(''node_type'', PStr ''WorkGraph'')])]"
             and ndata = "PDict [(''metadata'', PDict [(''node_type'', PStr ''WorkGraph'')])]" and executor = "PDict [(''graph_data'', PDict [(''tasks'', PDict [(''inner'', PDict [(''executor'', PDict [(''graph_data'', PDict [(''name'', PStr ''inner'')])])])])])]"
             and top_graph = "PDict [(''tasks'', PDict [(''inner'', PDict [(''executor'', PDict [(''graph_data'', PDict [(''name'', PStr ''inner'')])])])])]" and g = "PDict [(''name'', PStr ''inner'')]" and head_segment = "''sub''" and rest = "[''inner'']",
           THEN conjunct1, THEN mp])
      (simp_all add: ev descend_subgraph [symmetric])
  have b: "read_sub_workgraph (\<lambda>e :: exc. ''key'') (\<lambda>i :: int. (Inr () :: exc + unit)) (\<lambda>n :: unit. PDict [(''tasks'', PDict [(''sub'', PDict [(''metadata'', PDict [(''node_type'', PStr ''WorkGraph'')])])])]) (\<lambda>n :: unit. PDict [(''sub'', PDict [(''graph_data'', PDict [(''tasks'', PDict [(''inner'', PDict [(''executor'', PDict [(''graph_data'', PDict [(''name'', PStr ''inner'')])])])])])])]) (\<lambda>n :: unit. [] :: (string \<times> map_info) list) (\<lambda>n :: unit. PStr ''WorkGraph'') (\<lambda>v :: pyval. (Inr v :: exc + pyval)) (\<lambda>g :: pyval. (Inr g :: exc + pyval)) 7 ''sub/nope''
       = Inl (HTTPException 404
               (''Workgraph '' @ str_int 7 @ ''/'' @ ''sub/nope'' @ '' not found, ''
                  @ (\<lambda>e :: exc. ''key'') (KeyError ''nope'')))"
    by (rule read_sub_workgraph_nested
          [where load_node = "(\<lambda>i :: int. (Inr () :: exc + unit))" and node = "()" and workgraph_data = "(\<lambda>n :: unit. PDict [(''tasks'', PDict [(''sub'', PDict [(''metadata'', PDict [(''node_type'', PStr ''WorkGraph'')])])])])"
             and task_executors = "(\<lambda>n :: unit. PDict [(''sub'', PDict [(''graph_data'', PDict [(''tasks'', PDict [(''inner'', PDict [(''executor'', PDict [(''graph_data'', PDict [(''name'', PStr ''inner'')])])])])])])])" and process_label = "(\<lambda>n :: unit. PStr ''WorkGraph'')"
             and deserialize_unsafe = "(\<lambda>v :: pyval. (Inr v :: exc + pyval))" and workgraph_to_short_json = "(\<lambda>g :: pyval. (Inr g :: exc + pyval))"
             and all_tasks = "PDict [(''sub'', PDict [(''metadata'', PDict [(''node_type'', PStr ''WorkGraph'')])])]" and raw = "PDict [(''metadata'', PDict [(''node_type'', PStr ''WorkGraph'')])]"
             and ndata = "PDict [(''metadata'', PDict [(''node_type'', PStr ''WorkGraph'')])]" and executor = "PDict [(''graph_data'', PDict [(''tasks'', PDict [(''inner'', PDict [(''executor'', PDict [(''graph_data'', PDict [(''name'', PStr ''inner'')])])])])])]"
             and top_graph = "PDict [(''tasks'', PDict [(''inner'', PDict [(''executor'', PDict [(''graph_data'', PDict [(''name'', PStr ''inner'')])])])])]" and head_segment = "''sub''" and rest = "[''nope'']"
             and pre = "[]" and missing = "''nope''" and post = "[]" and gk = "PDict [(''tasks'', PDict [(''inner'', PDict [(''executor'', PDict [(''graph_data'', PDict [(''name'', PStr ''inner'')])])])])]" and str_exc = "(\<lambda>e :: exc. ''key'')"
             and tasks_k = "[(''inner'', PDict [(''executor'', PDict [(''graph_data'', PDict [(''name'', PStr ''inner'')])])])]",
           THEN conjunct2, THEN conjunct2, THEN mp])
      (simp_all add: ev descend_subgraph [symmetric])
  show ?thesis
    using a b by simp
qed

section \<open>The expansion of a map task\<close>

lemma link_prefixes_eq:
  "link_prefixes link ps out = out @ map (\<lambda>p. prefixed_link p link) ps"
  by (induction ps arbitrary: out) simp_all

lemma copy_links_eq:
  "copy_links cs ps ls out =
     out @ concat (map (\<lambda>link. map (\<lambda>p. prefixed_link p link) ps)
                     (filter (\<lambda>link. from_node link \<in> set cs \<and> to_node link \<in> set cs) ls))"
  by (induction ls arbitrary: out) (simp_all add: link_prefixes_eq)

lemma copy_prefixes_ok:
  "\<exists>tasks'. copy_prefixes (PDict d) c ps tasks = Inr tasks'
     \<and> (distinct (map fst tasks) \<longrightarrow> distinct (map fst tasks'))
     \<and> set (map fst tasks') = set (map fst tasks) \<union> (\<lambda>p. p @ ''_'' @ c) ` set ps
     \<and> ((\<forall>k t. map_of tasks k = Some t \<longrightarrow> getitem t ''name'' = Inr (PStr k)) \<longrightarrow>
        (\<forall>k t. map_of tasks' k = Some t \<longrightarrow> getitem t ''name'' = Inr (PStr k)))"
proof (induction ps arbitrary: tasks)
  case Nil
  then show ?case by simp
next
  case (Cons p ps)
  let ?k = "p @ ''_'' @ c"
  let ?v = "PDict (AList.update ''name'' (PStr ?k) d)"
  let ?t = "AList.update ?k ?v tasks"
  from Cons.IH [of ?t] obtain tasks' where
    r: "copy_prefixes (PDict d) c ps ?t = Inr tasks'"
    and d: "distinct (map fst ?t) \<longrightarrow> distinct (map fst tasks')"
    and s: "set (map fst tasks') = set (map fst ?t) \<union> (\<lambda>p. p @ ''_'' @ c) ` set ps"
    and n: "(\<forall>k t. map_of ?t k = Some t \<longrightarrow> getitem t ''name'' = Inr (PStr k)) \<longrightarrow>
        (\<forall>k t. map_of tasks' k = Some t \<longrightarrow> getitem t ''name'' = Inr (PStr k))"
    by blast
  have r': "copy_prefixes (PDict d) c (p # ps) tasks = Inr tasks'"
    using r by (simp add: shallow_copy_nested_dict_def)
  have d': "distinct (map fst tasks) \<longrightarrow> distinct (map fst tasks')"
    using d by (simp add: distinct_update)
  have keys: "set (map fst ?t) = insert ?k (set (map fst tasks))"
    by (auto simp: update_keys)
  have s': "set (map fst tasks') = set (map fst tasks) \<union> (\<lambda>p. p @ ''_'' @ c) ` set (p # ps)"
    using s keys by auto
  have named: "getitem ?v ''name'' = Inr (PStr ?k)"
    by (simp add: update_conv')
  have n': "(\<forall>k t. map_of tasks k = Some t \<longrightarrow> getitem t ''name'' = Inr (PStr k)) \<longrightarrow>
        (\<forall>k t. map_of tasks' k = Some t \<longrightarrow> getitem t ''name'' = Inr (PStr k))"
  proof
    assume a: "\<forall>k t. map_of tasks k = Some t \<longrightarrow> getitem t ''name'' = Inr (PStr k)"
    have "\<forall>k t. map_of ?t k = Some t \<longrightarrow> getitem t ''name'' = Inr (PStr k)"
      using a named by (auto simp: update_conv' simp del: getitem.simps)
    with n show "\<forall>k t. map_of tasks' k = Some t \<longrightarrow> getitem t ''name'' = Inr (PStr k)"
      by blast
  qed
  show ?case using r' d' s' n' by blast
qed

lemma copy_tasks_ok:
  assumes "getitem wg_data ''tasks'' = Inr all_tasks"
    and "\<forall>c \<in> set cs. \<exists>raw d. getitem all_tasks c = Inr raw \<and> deser raw = Inr (PDict d)"
  shows "\<exists>tasks'. copy_tasks deser wg_data cs ps tasks = Inr tasks'
     \<and> (distinct (map fst tasks) \<longrightarrow> distinct (map fst tasks'))
     \<and> set (map fst tasks')
         = set (map fst tasks) \<union> {p @ ''_'' @ c | p c. p \<in> set ps \<and> c \<in> set cs}
     \<and> ((\<forall>k t. map_of tasks k = Some t \<longrightarrow> getitem t ''name'' = Inr (PStr k)) \<longrightarrow>
        (\<forall>k t. map_of tasks' k = Some t \<longrightarrow> getitem t ''name'' = Inr (PStr k)))"
  using assms(2)
proof (induction cs arbitrary: tasks)
  case Nil
  then show ?case by simp
next
  case (Cons c cs)
  from Cons.prems obtain raw d where
    raw: "getitem all_tasks c = Inr raw" "deser raw = Inr (PDict d)" by auto
  from copy_prefixes_ok [of d c ps tasks] obtain t1 where
    r1: "copy_prefixes (PDict d) c ps tasks = Inr t1"
    and d1: "distinct (map fst tasks) \<longrightarrow> distinct (map fst t1)"
    and s1: "set (map fst t1) = set (map fst tasks) \<union> (\<lambda>p. p @ ''_'' @ c) ` set ps"
    and n1: "(\<forall>k t. map_of tasks k = Some t \<longrightarrow> getitem t ''name'' = Inr (PStr k)) \<longrightarrow>
        (\<forall>k t. map_of t1 k = Some t \<longrightarrow> getitem t ''name'' = Inr (PStr k))"
    by blast
  from Cons.prems have "\<forall>c \<in> set cs. \<exists>raw d. getitem all_tasks c = Inr raw \<and> deser raw = Inr (PDict d)"
    by simp
  from Cons.IH [OF this, of t1] obtain t2 where
    r2: "copy_tasks deser wg_data cs ps t1 = Inr t2"
    and d2: "distinct (map fst t1) \<longrightarrow> distinct (map fst t2)"
    and s2: "set (map fst t2)
         = set (map fst t1) \<union> {p @ ''_'' @ c | p c. p \<in> set ps \<and> c \<in> set cs}"
    and n2: "(\<forall>k t. map_of t1 k = Some t \<longrightarrow> getitem t ''name'' = Inr (PStr k)) \<longrightarrow>
        (\<forall>k t. map_of t2 k = Some t \<longrightarrow> getitem t ''name'' = Inr (PStr k))"
    by blast
  have r: "copy_tasks deser wg_data (c # cs) ps tasks = Inr t2"
    using assms(1) raw r1 r2 by simp
  have s: "set (map fst t2)
         = set (map fst tasks) \<union> {p @ ''_'' @ c' | p c'. p \<in> set ps \<and> c' \<in> set (c # cs)}"
    using s1 s2 by auto
  show ?case using r d1 d2 s n1 n2 by blast
qed

text \<open>
  C3. GET /api/workgraph/{id}/{path} when the first path segment names a task whose
  node_type, in upper case, is MAP, with its map information, every child being a task
  of the workgraph whose data is a dictionary: the graph handed to the short-JSON view
  has exactly one task under each name "{prefix}_{child}" for the prefixes and children
  of the map information (the keys are distinct, they are exactly these names, and each
  task carries its key as its name), and its links are, for every link of the map
  information whose from_node and to_node are both children, one link per prefix, with
  the prefixed node names and the sockets unchanged; a link with an endpoint outside the
  children gives no link. The response is that view with its empty summary.
\<close>

theorem read_sub_workgraph_map:
  assumes node: "load_node ident = Inr node"
    and path: "split_slash path = head_segment # rest"
    and tasks: "getitem (workgraph_data node) ''tasks'' = Inr all_tasks"
    and task: "getitem all_tasks head_segment = Inr raw"
    and ndata: "deserialize_unsafe raw = Inr ndata"
    and type: "node_type_upper ndata = Inr ''MAP''"
    and info: "map_of (task_map_info node) head_segment = Some info"
    and kids: "\<forall>c \<in> set (children info). \<exists>raw_c d.
                 getitem all_tasks c = Inr raw_c \<and> deserialize_unsafe raw_c = Inr (PDict d)"
  shows
  "\<exists>map_tasks graph_data.
     graph_data =
       PDict [(''name'', PStr (last (head_segment # rest))), (''uuid'', PStr []),
         (''tasks'', PDict map_tasks),
         (''links'', PList (concat (map
            (\<lambda>link. map (\<lambda>p.
                PDict [(''from_node'', PStr (p @ ''_'' @ from_node link)),
                       (''to_node'', PStr (p @ ''_'' @ to_node link)),
                       (''from_socket'', from_socket link),
                       (''to_socket'', to_socket link)])
              (mi_prefix info))
            (filter (\<lambda>link. from_node link \<in> set (children info)
                            \<and> to_node link \<in> set (children info))
               (links info)))))]
     \<and> distinct (map fst map_tasks)
     \<and> set (map fst map_tasks)
         = {p @ ''_'' @ c | p c. p \<in> set (mi_prefix info) \<and> c \<in> set (children info)}
     \<and> (\<forall>k t. map_of map_tasks k = Some t \<longrightarrow> getitem t ''name'' = Inr (PStr k))
     \<and> (\<forall>view. workgraph_to_short_json graph_data = Inr view \<longrightarrow>
          read_sub_workgraph str_exc load_node workgraph_data task_executors task_map_info
            process_label deserialize_unsafe workgraph_to_short_json ident path
          = with_empty_summary (process_label node) ident (head_segment # rest) view)"
proof -
  from copy_tasks_ok [OF tasks kids, of "mi_prefix info" "[]"] obtain map_tasks where
    r: "copy_tasks deserialize_unsafe (workgraph_data node) (children info) (mi_prefix info) []
          = Inr map_tasks"
    and d: "distinct (map fst map_tasks)"
    and s: "set (map fst map_tasks)
         = {p @ ''_'' @ c | p c. p \<in> set (mi_prefix info) \<and> c \<in> set (children info)}"
    and n: "\<forall>k t. map_of map_tasks k = Some t \<longrightarrow> getitem t ''name'' = Inr (PStr k)"
    by auto
  define graph_data where "graph_data =
       PDict [(''name'', PStr (last (head_segment # rest))), (''uuid'', PStr []),
         (''tasks'', PDict map_tasks),
         (''links'', PList (concat (map
            (\<lambda>link. map (\<lambda>p.
                PDict [(''from_node'', PStr (p @ ''_'' @ from_node link)),
                       (''to_node'', PStr (p @ ''_'' @ to_node link)),
                       (''from_socket'', from_socket link),
                       (''to_socket'', to_socket link)])
              (mi_prefix info))
            (filter (\<lambda>link. from_node link \<in> set (children info)
                            \<and> to_node link \<in> set (children info))
               (links info)))))]"
  have branch: "map_branch deserialize_unsafe (workgraph_data node) (Some info) (head_segment # rest)
      = Inr graph_data"
    unfolding graph_data_def
    by (simp add: map_branch_def r copy_links_eq prefixed_link_def del: last.simps)
  have body: "read_sub_workgraph_try load_node workgraph_data task_executors task_map_info
           process_label deserialize_unsafe workgraph_to_short_json ident path
         = bind_exc (workgraph_to_short_json graph_data)
             (with_empty_summary (process_label node) ident (head_segment # rest))"
    by (simp add: read_sub_workgraph_try_def node path tasks task ndata type info branch)
  have resp: "\<forall>view. workgraph_to_short_json graph_data = Inr view \<longrightarrow>
          read_sub_workgraph str_exc load_node workgraph_data task_executors task_map_info
            process_label deserialize_unsafe workgraph_to_short_json ident path
          = with_empty_summary (process_label node) ident (head_segment # rest) view"
  proof (intro allI impI)
    fix view
    assume v: "workgraph_to_short_json graph_data = Inr view"
    have nk: "\<And>k. with_empty_summary (process_label node) ident (head_segment # rest) view
          \<noteq> Inl (KeyError k)"
      by (rule with_empty_summary_not_KeyError)
    show "read_sub_workgraph str_exc load_node workgraph_data task_executors task_map_info
            process_label deserialize_unsafe workgraph_to_short_json ident path
          = with_empty_summary (process_label node) ident (head_segment # rest) view"
      using nk by (simp add: read_sub_workgraph_def body v split: sum.splits exc.splits)
  qed
  show ?thesis
    using graph_data_def d s n resp by blast
qed

theorem read_sub_workgraph_map_witness:
  "\<exists>map_tasks.
     distinct (map fst map_tasks)
     \<and> set (map fst map_tasks) = {p @ ''_'' @ c | p c. p \<in> {''a'', ''b''} \<and> c \<in> {''add''}}
     \<and> (\<forall>k t. map_of map_tasks k = Some t \<longrightarrow> getitem t ''name'' = Inr (PStr k))
     \<and> read_sub_workgraph (\<lambda>e :: exc. ''key'') (\<lambda>i :: int. (Inr () :: exc + unit)) (\<lambda>n :: unit. PDict [(''tasks'', PDict [(''map1'', PDict [(''metadata'', PDict [(''node_type'', PStr ''Map'')])]), (''add'', PDict [(''name'', PStr ''add''), (''metadata'', PDict [(''node_type'', PStr ''Normal'')])])])]) (\<lambda>n :: unit. PDict []) (\<lambda>n :: unit. [(''map1'', \<lparr>children = [''add''], mi_prefix = [''a'', ''b''], links = [\<lparr>from_node = ''add'', to_node = ''add'', from_socket = PStr ''result'', to_socket = PStr ''x''\<rparr>, \<lparr>from_node = ''add'', to_node = ''collect'', from_socket = PStr ''result'', to_socket = PStr ''y''\<rparr>]\<rparr>)]) (\<lambda>n :: unit. PStr ''WorkGraph'') (\<lambda>v :: pyval. (Inr v :: exc + pyval)) (\<lambda>g :: pyval. (Inr g :: exc + pyval)) 7 ''map1''
         = with_empty_summary (PStr ''WorkGraph'') 7 [''map1'']
             (PDict [(''name'', PStr ''map1''), (''uuid'', PStr []),
                (''tasks'', PDict map_tasks),
                (''links'', PList
                   [PDict [(''from_node'', PStr ''a_add''), (''to_node'', PStr ''a_add''),
                           (''from_socket'', PStr ''result''), (''to_socket'', PStr ''x'')],
                    PDict [(''from_node'', PStr ''b_add''), (''to_node'', PStr ''b_add''),
                           (''from_socket'', PStr ''result''), (''to_socket'', PStr ''x'')]])])"
  using read_sub_workgraph_map
    [where load_node = "(\<lambda>i :: int. (Inr () :: exc + unit))" and ident = 7 and node = "()" and path = "''map1''"
       and head_segment = "''map1''" and rest = "[]" and workgraph_data = "(\<lambda>n :: unit. PDict [(''tasks'', PDict [(''map1'', PDict [(''metadata'', PDict [(''node_type'', PStr ''Map'')])]), (''add'', PDict [(''name'', PStr ''add''), (''metadata'', PDict [(''node_type'', PStr ''Normal'')])])])])"
       and all_tasks = "PDict [(''map1'', PDict [(''metadata'', PDict [(''node_type'', PStr ''Map'')])]), (''add'', PDict [(''name'', PStr ''add''), (''metadata'', PDict [(''node_type'', PStr ''Normal'')])])]" and raw = "PDict [(''metadata'', PDict [(''node_type'', PStr ''Map'')])]" and deserialize_unsafe = "(\<lambda>v :: pyval. (Inr v :: exc + pyval))"
       and ndata = "PDict [(''metadata'', PDict [(''node_type'', PStr ''Map'')])]" and task_map_info = "(\<lambda>n :: unit. [(''map1'', \<lparr>children = [''add''], mi_prefix = [''a'', ''b''], links = [\<lparr>from_node = ''add'', to_node = ''add'', from_socket = PStr ''result'', to_socket = PStr ''x''\<rparr>, \<lparr>from_node = ''add'', to_node = ''collect'', from_socket = PStr ''result'', to_socket = PStr ''y''\<rparr>]\<rparr>)])" and info = "\<lparr>children = [''add''], mi_prefix = [''a'', ''b''], links = [\<lparr>from_node = ''add'', to_node = ''add'', from_socket = PStr ''result'', to_socket = PStr ''x''\<rparr>, \<lparr>from_node = ''add'', to_node = ''collect'', from_socket = PStr ''result'', to_socket = PStr ''y''\<rparr>]\<rparr>"
       and str_exc = "(\<lambda>e :: exc. ''key'')" and task_executors = "(\<lambda>n :: unit. PDict [])" and process_label = "(\<lambda>n :: unit. PStr ''WorkGraph'')"
       and workgraph_to_short_json = "(\<lambda>g :: pyval. (Inr g :: exc + pyval))"]
  by (simp add: node_type_upper_def upper_def upper_char_def)

section \<open>One workgraph\<close>

text \<open>
  C7. GET /api/workgraph/{id}: when \<open>workgraph_data_short\<close> is not None the response
  is that content with \<open>summary\<close> (the node summary table, the inputs, the outputs),
  \<open>parent_workgraphs\<close> (the reversal of \<open>get_parent_workgraphs(id)\<close>) and an empty
  \<open>processes_info\<close>; when it is None the handler returns nothing; a KeyError raised by
  any step of the handling gives HTTP 404.
\<close>

theorem read_workgraph_content:
  "(load_node ident = Inr node \<and> workgraph_data_short node = Inr (PDict short)
      \<and> get_node_summary node = Inr table \<and> get_node_inputs ident = Inr inputs
      \<and> get_node_outputs ident = Inr outputs \<and> get_parent_workgraphs ident = Inr parents \<longrightarrow>
      (\<exists>content.
         read_workgraph str_exc load_node workgraph_data_short get_node_summary get_node_inputs
           get_node_outputs get_parent_workgraphs ident = Inr (PDict content)
         \<and> (\<forall>k. k \<notin> {''summary'', ''parent_workgraphs'', ''processes_info''} \<longrightarrow>
               map_of content k = map_of short k)
         \<and> map_of content ''summary''
             = Some (PDict [(''table'', table), (''inputs'', inputs), (''outputs'', outputs)])
         \<and> map_of content ''parent_workgraphs'' = Some (PList (rev parents))
         \<and> map_of content ''processes_info'' = Some (PDict [])))
   \<and> (load_node ident = Inr node \<and> workgraph_data_short node = Inr PNone \<longrightarrow>
         read_workgraph str_exc load_node workgraph_data_short get_node_summary get_node_inputs
           get_node_outputs get_parent_workgraphs ident = Inr PNone)
   \<and> (read_workgraph_try load_node workgraph_data_short get_node_summary get_node_inputs
           get_node_outputs get_parent_workgraphs ident = Inl (KeyError k) \<longrightarrow>
         read_workgraph str_exc load_node workgraph_data_short get_node_summary get_node_inputs
           get_node_outputs get_parent_workgraphs ident
         = Inl (HTTPException 404
                 (''Workgraph '' @ str_int ident @ '' not found, '' @ str_exc (KeyError k))))
   \<and> (load_node ident = Inl (KeyError k)
       \<or> (load_node ident = Inr node \<and> workgraph_data_short node = Inl (KeyError k))
       \<or> (load_node ident = Inr node \<and> workgraph_data_short node = Inr (PDict short)
           \<and> (get_node_summary node = Inl (KeyError k)
               \<or> (get_node_summary node = Inr table
                   \<and> (get_node_inputs ident = Inl (KeyError k)
                       \<or> (get_node_inputs ident = Inr inputs
                           \<and> (get_node_outputs ident = Inl (KeyError k)
                               \<or> (get_node_outputs ident = Inr outputs
                                   \<and> get_parent_workgraphs ident = Inl (KeyError k)))))))) \<longrightarrow>
         read_workgraph_try load_node workgraph_data_short get_node_summary get_node_inputs
           get_node_outputs get_parent_workgraphs ident = Inl (KeyError k))"
proof -
  have p1: "load_node ident = Inr node \<and> workgraph_data_short node = Inr (PDict short)
      \<and> get_node_summary node = Inr table \<and> get_node_inputs ident = Inr inputs
      \<and> get_node_outputs ident = Inr outputs \<and> get_parent_workgraphs ident = Inr parents \<longrightarrow>
      (\<exists>content.
         read_workgraph str_exc load_node workgraph_data_short get_node_summary get_node_inputs
           get_node_outputs get_parent_workgraphs ident = Inr (PDict content)
         \<and> (\<forall>k. k \<notin> {''summary'', ''parent_workgraphs'', ''processes_info''} \<longrightarrow>
               map_of content k = map_of short k)
         \<and> map_of content ''summary''
             = Some (PDict [(''table'', table), (''inputs'', inputs), (''outputs'', outputs)])
         \<and> map_of content ''parent_workgraphs'' = Some (PList (rev parents))
         \<and> map_of content ''processes_info'' = Some (PDict []))"
    by (simp add: read_workgraph_def read_workgraph_try_def update_conv')
  have p2: "load_node ident = Inr node \<and> workgraph_data_short node = Inr PNone \<longrightarrow>
         read_workgraph str_exc load_node workgraph_data_short get_node_summary get_node_inputs
           get_node_outputs get_parent_workgraphs ident = Inr PNone"
    by (simp add: read_workgraph_def read_workgraph_try_def)
  have p3: "read_workgraph_try load_node workgraph_data_short get_node_summary get_node_inputs
           get_node_outputs get_parent_workgraphs ident = Inl (KeyError k) \<longrightarrow>
         read_workgraph str_exc load_node workgraph_data_short get_node_summary get_node_inputs
           get_node_outputs get_parent_workgraphs ident
         = Inl (HTTPException 404
                 (''Workgraph '' @ str_int ident @ '' not found, '' @ str_exc (KeyError k)))"
    by (simp add: read_workgraph_def)
  have p4: "load_node ident = Inl (KeyError k)
       \<or> (load_node ident = Inr node \<and> workgraph_data_short node = Inl (KeyError k))
       \<or> (load_node ident = Inr node \<and> workgraph_data_short node = Inr (PDict short)
           \<and> (get_node_summary node = Inl (KeyError k)
               \<or> (get_node_summary node = Inr table
                   \<and> (get_node_inputs ident = Inl (KeyError k)
                       \<or> (get_node_inputs ident = Inr inputs
                           \<and> (get_node_outputs ident = Inl (KeyError k)
                               \<or> (get_node_outputs ident = Inr outputs
                                   \<and> get_parent_workgraphs ident = Inl (KeyError k)))))))) \<longrightarrow>
         read_workgraph_try load_node workgraph_data_short get_node_summary get_node_inputs
           get_node_outputs get_parent_workgraphs ident = Inl (KeyError k)"
    by (auto simp: read_workgraph_try_def)
  show ?thesis by (rule conjI [OF p1 conjI [OF p2 conjI [OF p3 p4]]])
qed

theorem read_workgraph_content_witness:
  "(\<exists>content.
      read_workgraph (\<lambda>e :: exc. ''key'') (\<lambda>i :: int. (Inr () :: exc + unit)) (\<lambda>n. Inr (PDict [(''name'', PStr ''wg'')]))
        (\<lambda>n. Inr (PList [])) (\<lambda>i. Inr (PDict [])) (\<lambda>i. Inr (PDict []))
        (\<lambda>i. Inr [PList [PStr ''inner'', PInt 7], PList [PStr ''outer'', PInt 3]]) 7
        = Inr (PDict content)
      \<and> (\<forall>k. k \<notin> {''summary'', ''parent_workgraphs'', ''processes_info''} \<longrightarrow>
            map_of content k = map_of [(''name'', PStr ''wg'')] k)
      \<and> map_of content ''summary''
          = Some (PDict [(''table'', PList []), (''inputs'', PDict []), (''outputs'', PDict [])])
      \<and> map_of content ''parent_workgraphs''
          = Some (PList (rev [PList [PStr ''inner'', PInt 7], PList [PStr ''outer'', PInt 3]]))
      \<and> map_of content ''processes_info'' = Some (PDict []))
   \<and> read_workgraph (\<lambda>e :: exc. ''key'') (\<lambda>i :: int. (Inr () :: exc + unit)) (\<lambda>n. Inr PNone)
        (\<lambda>n. Inr (PList [])) (\<lambda>i. Inr (PDict [])) (\<lambda>i. Inr (PDict [])) (\<lambda>i. Inr []) 7
       = Inr PNone
   \<and> read_workgraph (\<lambda>e :: exc. ''key'') (\<lambda>i :: int. (Inr () :: exc + unit)) (\<lambda>n. Inr (PDict [])) (\<lambda>n. Inl (KeyError ''ctime''))
        (\<lambda>i. Inr (PDict [])) (\<lambda>i. Inr (PDict [])) (\<lambda>i. Inr []) 7
       = Inl (HTTPException 404 (''Workgraph '' @ str_int 7 @ '' not found, '' @ ''key''))"
proof -
  have a: "\<exists>content.
      read_workgraph (\<lambda>e :: exc. ''key'') (\<lambda>i :: int. (Inr () :: exc + unit)) (\<lambda>n. Inr (PDict [(''name'', PStr ''wg'')]))
        (\<lambda>n. Inr (PList [])) (\<lambda>i. Inr (PDict [])) (\<lambda>i. Inr (PDict []))
        (\<lambda>i. Inr [PList [PStr ''inner'', PInt 7], PList [PStr ''outer'', PInt 3]]) 7
        = Inr (PDict content)
      \<and> (\<forall>k. k \<notin> {''summary'', ''parent_workgraphs'', ''processes_info''} \<longrightarrow>
            map_of content k = map_of [(''name'', PStr ''wg'')] k)
      \<and> map_of content ''summary''
          = Some (PDict [(''table'', PList []), (''inputs'', PDict []), (''outputs'', PDict [])])
      \<and> map_of content ''parent_workgraphs''
          = Some (PList (rev [PList [PStr ''inner'', PInt 7], PList [PStr ''outer'', PInt 3]]))
      \<and> map_of content ''processes_info'' = Some (PDict [])"
    by (rule read_workgraph_content
          [where node = "()" and load_node = "(\<lambda>i :: int. (Inr () :: exc + unit))"
             and workgraph_data_short = "\<lambda>n. Inr (PDict [(''name'', PStr ''wg'')])"
             and get_node_summary = "\<lambda>n. Inr (PList [])"
             and get_node_inputs = "\<lambda>i. Inr (PDict [])"
             and get_node_outputs = "\<lambda>i. Inr (PDict [])"
             and get_parent_workgraphs
               = "\<lambda>i. Inr [PList [PStr ''inner'', PInt 7], PList [PStr ''outer'', PInt 3]]",
           THEN conjunct1, THEN mp]) simp
  have b: "read_workgraph (\<lambda>e :: exc. ''key'') (\<lambda>i :: int. (Inr () :: exc + unit)) (\<lambda>n. Inr PNone)
        (\<lambda>n. Inr (PList [])) (\<lambda>i. Inr (PDict [])) (\<lambda>i. Inr (PDict [])) (\<lambda>i. Inr []) 7
       = Inr PNone"
    by (rule read_workgraph_content
          [where node = "()" and load_node = "(\<lambda>i :: int. (Inr () :: exc + unit))" and workgraph_data_short = "\<lambda>n. Inr PNone",
           THEN conjunct2, THEN conjunct1, THEN mp]) simp
  have t: "read_workgraph_try (\<lambda>i :: int. (Inr () :: exc + unit)) (\<lambda>n. Inr (PDict [])) (\<lambda>n. Inl (KeyError ''ctime''))
        (\<lambda>i. Inr (PDict [])) (\<lambda>i. Inr (PDict [])) (\<lambda>i. Inr []) 7 = Inl (KeyError ''ctime'')"
    by (rule read_workgraph_content
          [where node = "()" and load_node = "(\<lambda>i :: int. (Inr () :: exc + unit))" and short = "[]"
             and workgraph_data_short = "\<lambda>n. Inr (PDict [])"
             and get_node_summary = "\<lambda>n. Inl (KeyError ''ctime'')",
           THEN conjunct2, THEN conjunct2, THEN conjunct2, THEN mp]) simp
  have c: "read_workgraph (\<lambda>e :: exc. ''key'') (\<lambda>i :: int. (Inr () :: exc + unit)) (\<lambda>n. Inr (PDict [])) (\<lambda>n. Inl (KeyError ''ctime''))
        (\<lambda>i. Inr (PDict [])) (\<lambda>i. Inr (PDict [])) (\<lambda>i. Inr []) 7
       = Inl (HTTPException 404
               (''Workgraph '' @ str_int 7 @ '' not found, '' @ (\<lambda>e :: exc. ''key'') (KeyError ''ctime'')))"
    by (rule read_workgraph_content
          [where str_exc = "(\<lambda>e :: exc. ''key'')", THEN conjunct2, THEN conjunct2, THEN conjunct1, THEN mp])
      (rule t)
  show ?thesis
    using a b c by simp
qed

section \<open>The single-page fallback\<close>

text \<open>
  C4. The exception handler of the application answers an HTTPException with status 404
  with index.html of the React build, as text/html, and passes every other status to the
  framework's default handler. That includes the 404 an endpoint raises itself, such as
  the one of \<open>read_workgraph\<close> for a KeyError.
\<close>

theorem spa_server_not_found:
  "spa_server build_dir http_exception_handler 404 detail
     = FileResponse (build_dir @ ''/index.html'') ''text/html''
   \<and> (status_code \<noteq> 404 \<longrightarrow>
        spa_server build_dir http_exception_handler status_code detail
          = DefaultResponse (http_exception_handler status_code detail))
   \<and> (handler_result = Inl (HTTPException 404 detail) \<longrightarrow>
        app_outcome build_dir http_exception_handler handler_result
          = Handled (FileResponse (build_dir @ ''/index.html'') ''text/html''))
   \<and> (handler_result = Inl (HTTPException status_code detail) \<and> status_code \<noteq> 404 \<longrightarrow>
        app_outcome build_dir http_exception_handler handler_result
          = Handled (DefaultResponse (http_exception_handler status_code detail)))
   \<and> (load_node ident = Inl (KeyError k) \<longrightarrow>
        app_outcome build_dir http_exception_handler
          (read_workgraph str_exc load_node workgraph_data_short get_node_summary
             get_node_inputs get_node_outputs get_parent_workgraphs ident)
          = Handled (FileResponse (build_dir @ ''/index.html'') ''text/html''))"
  by (simp add: spa_server_def app_outcome_def read_workgraph_def read_workgraph_try_def)

theorem spa_server_not_found_witness:
  "spa_server ''build'' (\<lambda>s d. (s, d)) 500 ''boom'' = DefaultResponse (500, ''boom'')
   \<and> app_outcome ''build'' (\<lambda>s d. (s, d))
        (Inl (HTTPException 404 ''Not Found'') :: exc + unit)
       = Handled (FileResponse (''build'' @ ''/index.html'') ''text/html'')
   \<and> app_outcome ''build'' (\<lambda>s d. (s, d))
        (read_workgraph (\<lambda>e :: exc. ''key'') (\<lambda>i. (Inl (KeyError ''pk'') :: exc + unit)) (\<lambda>n. Inr PNone)
           (\<lambda>n. Inr PNone) (\<lambda>i. Inr PNone) (\<lambda>i. Inr PNone) (\<lambda>i. Inr []) 7)
       = Handled (FileResponse (''build'' @ ''/index.html'') ''text/html'')"
proof -
  have a: "spa_server ''build'' (\<lambda>s d. (s, d)) 500 ''boom'' = DefaultResponse (500, ''boom'')"
    using spa_server_not_found [where status_code = 500 and detail = "''boom''"
        and build_dir = "''build''" and http_exception_handler = "\<lambda>s d. (s, d)",
        THEN conjunct2, THEN conjunct1]
    by simp
  have b: "app_outcome ''build'' (\<lambda>s d. (s, d))
        (Inl (HTTPException 404 ''Not Found'') :: exc + unit)
       = Handled (FileResponse (''build'' @ ''/index.html'') ''text/html'')"
    by (rule spa_server_not_found
          [THEN conjunct2, THEN conjunct2, THEN conjunct1, THEN mp]) simp
  have c: "app_outcome ''build'' (\<lambda>s d. (s, d))
        (read_workgraph (\<lambda>e :: exc. ''key'') (\<lambda>i. (Inl (KeyError ''pk'') :: exc + unit)) (\<lambda>n. Inr PNone)
           (\<lambda>n. Inr PNone) (\<lambda>i. Inr PNone) (\<lambda>i. Inr PNone) (\<lambda>i. Inr []) 7)
       = Handled (FileResponse (''build'' @ ''/index.html'') ''text/html'')"
    by (rule spa_server_not_found
          [where k = "''pk''", THEN conjunct2, THEN conjunct2, THEN conjunct2, THEN conjunct2,
           THEN mp]) simp
  show ?thesis
    using a b c by simp
qed

section \<open>Process control\<close>

text \<open>
  C6. pause_workgraph loads the node and calls pause_processes on the singleton list
  holding it; on success it returns exactly the message "Send message to pause workgraph
  {id}". Whatever exception the load or the control call raises becomes an HTTP 500 whose
  detail is the exception's string, so the handler never raises a 404. play_workgraph is
  the same with play_processes and the play wording.
\<close>

theorem pause_play_workgraph:
  "(load_node ident = Inr node \<and> pause_processes [node] = Inr u \<longrightarrow>
      pause_workgraph str_exc load_node pause_processes ident =
        Inr [(''message'', ''Send message to pause workgraph '' @ str_int ident)])
   \<and> (load_node ident = Inl e \<longrightarrow>
      pause_workgraph str_exc load_node pause_processes ident = Inl (HTTPException 500 (str_exc e)))
   \<and> (load_node ident = Inr node \<and> pause_processes [node] = Inl e \<longrightarrow>
      pause_workgraph str_exc load_node pause_processes ident = Inl (HTTPException 500 (str_exc e)))
   \<and> pause_workgraph str_exc load_node pause_processes ident \<noteq> Inl (HTTPException 404 d)
   \<and> (load_node ident = Inr node \<and> play_processes [node] = Inr u \<longrightarrow>
      play_workgraph str_exc load_node play_processes ident =
        Inr [(''message'', ''Send message to play workgraph '' @ str_int ident)])
   \<and> (load_node ident = Inl e \<longrightarrow>
      play_workgraph str_exc load_node play_processes ident = Inl (HTTPException 500 (str_exc e)))
   \<and> (load_node ident = Inr node \<and> play_processes [node] = Inl e \<longrightarrow>
      play_workgraph str_exc load_node play_processes ident = Inl (HTTPException 500 (str_exc e)))
   \<and> play_workgraph str_exc load_node play_processes ident \<noteq> Inl (HTTPException 404 d)"
  by (auto simp: pause_workgraph_def play_workgraph_def split: sum.splits)

theorem pause_play_workgraph_witness:
  "pause_workgraph (\<lambda>e. ''boom'') (\<lambda>i. if i = 7 then Inr i else Inl (OtherError ''gone''))
       (\<lambda>ns. (Inr () :: exc + unit)) 7
     = Inr [(''message'', ''Send message to pause workgraph '' @ str_int 7)]
   \<and> pause_workgraph (\<lambda>e. ''boom'') (\<lambda>i. if i = 7 then Inr i else Inl (OtherError ''gone''))
       (\<lambda>ns. (Inr () :: exc + unit)) 8
     = Inl (HTTPException 500 ''boom'')
   \<and> play_workgraph (\<lambda>e. ''boom'') (\<lambda>i. if i = 7 then Inr i else Inl (OtherError ''gone''))
       (\<lambda>ns. (Inl TypeError :: exc + unit)) 7
     = Inl (HTTPException 500 ''boom'')"
  using
    pause_play_workgraph [of "\<lambda>i. if i = 7 then Inr i else Inl (OtherError ''gone'')" 7 7
      "\<lambda>ns. (Inr () :: exc + unit)" "()" "\<lambda>e. ''boom''" "OtherError ''gone''" "[]"
      "\<lambda>ns. (Inl TypeError :: exc + unit)"]
    pause_play_workgraph [of "\<lambda>i. if i = 7 then Inr i else Inl (OtherError ''gone'')" 8 7
      "\<lambda>ns. (Inr () :: exc + unit)" "()" "\<lambda>e. ''boom''" "OtherError ''gone''" "[]"
      "\<lambda>ns. (Inl TypeError :: exc + unit)"]
    pause_play_workgraph [of "\<lambda>i. if i = 7 then Inr i else Inl (OtherError ''gone'')" 7 7
      "\<lambda>ns. (Inl TypeError :: exc + unit)" "()" "\<lambda>e. ''boom''" "TypeError" "[]"
      "\<lambda>ns. (Inl TypeError :: exc + unit)"]
  by simp

text \<open>
  C9. manage_task_action with an action other than pause, play and kill answers HTTP 500:
  the 400 it raises itself is caught by its own \<open>except Exception\<close> and raised again as a
  500 whose detail is the string of the 400. For each of the three actions the matching
  control function is called with the workgraph id and the task list, and the message it
  returns is the response; an exception it raises becomes a 500 as well.
\<close>

theorem manage_task_action_cases:
  "(action \<notin> {''pause'', ''play'', ''kill''} \<longrightarrow>
      manage_task_action str_exc pause_tasks play_tasks kill_tasks action ident tasks =
        Inl (HTTPException 500 (str_exc (HTTPException 400 ''Unsupported action''))))
   \<and> (pause_tasks ident tasks = Inr (u, msg) \<longrightarrow>
      manage_task_action str_exc pause_tasks play_tasks kill_tasks ''pause'' ident tasks =
        Inr [(''message'', msg)])
   \<and> (play_tasks ident tasks = Inr (u, msg) \<longrightarrow>
      manage_task_action str_exc pause_tasks play_tasks kill_tasks ''play'' ident tasks =
        Inr [(''message'', msg)])
   \<and> (kill_tasks ident tasks = Inr (u, msg) \<longrightarrow>
      manage_task_action str_exc pause_tasks play_tasks kill_tasks ''kill'' ident tasks =
        Inr [(''message'', msg)])
   \<and> (pause_tasks ident tasks = Inl e \<longrightarrow>
      manage_task_action str_exc pause_tasks play_tasks kill_tasks ''pause'' ident tasks =
        Inl (HTTPException 500 (str_exc e)))
   \<and> (play_tasks ident tasks = Inl e \<longrightarrow>
      manage_task_action str_exc pause_tasks play_tasks kill_tasks ''play'' ident tasks =
        Inl (HTTPException 500 (str_exc e)))
   \<and> (kill_tasks ident tasks = Inl e \<longrightarrow>
      manage_task_action str_exc pause_tasks play_tasks kill_tasks ''kill'' ident tasks =
        Inl (HTTPException 500 (str_exc e)))"
  by (simp add: manage_task_action_def)

theorem manage_task_action_cases_witness:
  "manage_task_action (\<lambda>e. case e of HTTPException s d \<Rightarrow> d | _ \<Rightarrow> ''other'')
       (\<lambda>i ts. Inr (True, ''paused'')) (\<lambda>i ts. Inr (True, ''played''))
       (\<lambda>i ts. Inl (OtherError ''unreachable'')) ''restart'' 3 (Some [''add1''])
     = Inl (HTTPException 500 ''Unsupported action'')
   \<and> manage_task_action (\<lambda>e. case e of HTTPException s d \<Rightarrow> d | _ \<Rightarrow> ''other'')
       (\<lambda>i ts. Inr (True, ''paused'')) (\<lambda>i ts. Inr (True, ''played''))
       (\<lambda>i ts. Inl (OtherError ''unreachable'')) ''play'' 3 (Some [''add1''])
     = Inr [(''message'', ''played'')]
   \<and> manage_task_action (\<lambda>e. case e of HTTPException s d \<Rightarrow> d | _ \<Rightarrow> ''other'')
       (\<lambda>i ts. Inr (True, ''paused'')) (\<lambda>i ts. Inr (True, ''played''))
       (\<lambda>i ts. Inl (OtherError ''unreachable'')) ''kill'' 3 (Some [''add1''])
     = Inl (HTTPException 500 ''other'')"
  using manage_task_action_cases [of "''restart''"
      "\<lambda>e. case e of HTTPException s d \<Rightarrow> d | _ \<Rightarrow> ''other''"
      "\<lambda>i ts. Inr (True, ''paused'')" "\<lambda>i ts. Inr (True, ''played'')"
      "\<lambda>i ts. Inl (OtherError ''unreachable'')" 3 "Some [''add1'']" True "''played''"
      "OtherError ''unreachable''"]
  by simp

section \<open>Deleting nodes\<close>

text \<open>
  C5. Both delete handlers call delete_nodes([id], dry_run=dry_run). The field
  \<open>deleted\<close> of the response is the boolean delete_nodes returned and \<open>deleted_nodes\<close>
  is the list of the pks it returned. When nothing was deleted the message ends with
  " [dry-run]" exactly when dry_run is true. An exception of delete_nodes becomes an
  HTTP 500 whose detail is the exception's string.
\<close>

theorem delete_endpoints:
  "(delete_nodes [ident] dry_run = Inr (pks, was_deleted) \<longrightarrow>
      (\<exists>r. delete_workgraph str_exc delete_nodes ident dry_run = Inr r
         \<and> deleted r = was_deleted \<and> deleted_nodes r = pks
         \<and> (\<not> was_deleted \<longrightarrow> (suffix '' [dry-run]'' (message r) \<longleftrightarrow> dry_run)))
    \<and> (\<exists>r. delete_data_node str_exc delete_nodes ident dry_run = Inr r
         \<and> deleted r = was_deleted \<and> deleted_nodes r = pks
         \<and> (\<not> was_deleted \<longrightarrow> (suffix '' [dry-run]'' (message r) \<longleftrightarrow> dry_run))))
   \<and> (delete_nodes [ident] dry_run = Inl e \<longrightarrow>
      delete_workgraph str_exc delete_nodes ident dry_run = Inl (HTTPException 500 (str_exc e))
      \<and> delete_data_node str_exc delete_nodes ident dry_run = Inl (HTTPException 500 (str_exc e)))"
proof -
  have wg: "\<not> suffix '' [dry-run]'' (''Did not delete workgraph '' @ str_int ident)"
    by (rule no_dry_run_suffix)
  have dn: "\<not> suffix '' [dry-run]'' (''Did not delete data node '' @ str_int ident)"
    by (rule no_dry_run_suffix)
  have sfx: "\<And>m. suffix '' [dry-run]'' (m @ '' [dry-run]'')"
    by (rule suffix_appendI) simp
  show ?thesis
    using wg dn sfx [of "''Did not delete workgraph '' @ str_int ident"]
      sfx [of "''Did not delete data node '' @ str_int ident"]
    by (auto simp: delete_workgraph_def delete_data_node_def Let_def simp del: append.simps)
qed

theorem delete_endpoints_witness:
  "(\<exists>r. delete_workgraph (\<lambda>e. ''locked'') (\<lambda>ps dry. Inr ([5, 6], \<not> dry)) 5 True = Inr r
       \<and> \<not> deleted r \<and> deleted_nodes r = [5, 6] \<and> suffix '' [dry-run]'' (message r))
   \<and> (\<exists>r. delete_data_node (\<lambda>e. ''locked'') (\<lambda>ps dry. Inr ([5, 6], \<not> dry)) 5 False = Inr r
       \<and> deleted r \<and> deleted_nodes r = [5, 6])
   \<and> delete_workgraph (\<lambda>e. ''locked'') (\<lambda>ps dry. Inl (OtherError ''db'')) 5 False
       = Inl (HTTPException 500 ''locked'')"
  using
    delete_endpoints [of "\<lambda>ps dry. Inr ([5, 6], \<not> dry)" 5 True "[5, 6]" False "\<lambda>e. ''locked''"
      "OtherError ''db''"]
    delete_endpoints [of "\<lambda>ps dry. Inr ([5, 6], \<not> dry)" 5 False "[5, 6]" True "\<lambda>e. ''locked''"
      "OtherError ''db''"]
    delete_endpoints [of "\<lambda>ps dry. Inl (OtherError ''db'')" 5 False "[]" True "\<lambda>e. ''locked''"
      "OtherError ''db''"]
  by simp

end
